theory Spec2Isabelle
  imports Complex_Main
begin

section \<open>The command line of sgpt: \<open>sgpt/app.py\<close>\<close>

text \<open>
  The module \<open>sgpt/app.py\<close> holds one function, \<open>main\<close>, which validates the command
  line, resolves the system role, hands the prompt to one of the completion handlers and,
  for shell commands, asks the user whether to execute, describe or abort. The model below
  follows \<open>main\<close> statement by statement. What \<open>main\<close> does to the outside (reading standard
  input, resolving a role, calling the remote model, running a command) is recorded as a list
  of events, in the order in which the statements run; what it raises is the left summand of
  its result.
\<close>

subsection \<open>Values, exceptions and events\<close>

text \<open>
  Python's \<open>Optional[str]\<close> options default to \<open>None\<close>; \<open>not x\<close> holds of \<open>None\<close> and of
  the empty string alike.
\<close>

definition truthy :: "string option \<Rightarrow> bool" where
  "truthy s = (case s of None \<Rightarrow> False | Some t \<Rightarrow> t \<noteq> [])"

text \<open>
  \<open>MissingParameter\<close> and \<open>BadArgumentUsage\<close> are the two click exceptions \<open>main\<close> raises
  itself; both derive from click's \<open>UsageError\<close> (exit status 2). \<open>ClickAbort\<close> is what
  \<open>typer.prompt\<close> raises at end of input or on an interrupt. The remaining ones are the
  failures the specification names for the collaborators of \<open>main\<close>; \<open>Exited\<close> is the
  terminal state of the REPL, which ends the process.
\<close>

datatype error =
    MissingParameter
  | BadArgumentUsage string
  | ClickAbort
  | OSError
  | ConfigurationError
  | NotFoundError
  | GenerationError
  | Exited
  | OtherError string

fun is_usage_error :: "error \<Rightarrow> bool" where
  "is_usage_error MissingParameter = True"
| "is_usage_error (BadArgumentUsage m) = True"
| "is_usage_error e = False"

datatype kind = DefaultShell | DefaultDescribeShell | DefaultCode | DefaultPlain | Custom

record Role =
  role_name :: string
  role_text :: string
  role_kind :: kind

datatype speaker = System | User | Assistant

record message =
  speaker :: speaker
  content :: "string option"
  image_ref :: "string option"

datatype event =
    StdinRead
  | FileRead string
  | EditorOpened
  | CheckGet bool bool bool
  | SystemRoleGet string
  | TokensPrinted nat
  | ReplStarted string
  | ReplExited
  | HandleCall Role "string option" "string option"
  | RemoteCall "message list"
  | Printed string
  | ShellPrompt string
  | Chose string
  | RunCommand string int

text \<open>The events that ask for a completion, and those that resolve a role.\<close>

fun is_completion :: "event \<Rightarrow> bool" where
  "is_completion (HandleCall r p c) = True"
| "is_completion (RemoteCall ms) = True"
| "is_completion e = False"

fun is_role_resolution :: "event \<Rightarrow> bool" where
  "is_role_resolution (CheckGet s d c) = True"
| "is_role_resolution (SystemRoleGet n) = True"
| "is_role_resolution e = False"

fun is_run :: "event \<Rightarrow> bool" where
  "is_run (RunCommand c s) = True"
| "is_run e = False"

subsection \<open>The command line and the environment\<close>

text \<open>
  The parameters of \<open>main\<close> that its body reads. The options served by a typer callback
  (\<open>--version\<close>, \<open>--show-chat\<close>, \<open>--list-chats\<close>, \<open>--create-role\<close>, \<open>--show-role\<close>,
  \<open>--list-roles\<close>, \<open>--install-integration\<close>) are not read by the body. The two float
  options are only handed on, never computed with.
\<close>

record args =
  prompt :: "string option"
  model :: string
  temperature :: rat
  top_probability :: rat
  shell :: bool
  describe_shell :: bool
  code :: bool
  editor :: bool
  cache :: bool
  chat :: "string option"
  image_opt :: "string option"
  repl :: "string option"
  tokenize :: bool
  role :: "string option"

text \<open>
  What \<open>main\<close> reads from outside and the library functions it calls: whether standard
  input is a terminal and its whole text, the configured \<open>DEFAULT_EXECUTE_SHELL_CMD\<close>, the
  text that comes back from the editor, the bytes of a file (\<open>None\<close> when \<open>open\<close> fails),
  base64, the token count of tiktoken, the persisted roles, the built-in roles, and the exit
  status of the child process that \<open>run_command\<close> starts.
\<close>

record env =
  stdin_isatty :: bool
  stdin_read :: string
  DEFAULT_EXECUTE_SHELL_CMD :: string
  get_edited_prompt :: "error + string"
  open_rb :: "string \<Rightarrow> string option"
  b64encode :: "string \<Rightarrow> string"
  count_tokens :: "string \<Rightarrow> string option \<Rightarrow> error + nat"
  persisted_roles :: "string \<rightharpoonup> Role"
  builtin_name :: "kind \<Rightarrow> string"
  builtin_text :: "kind \<Rightarrow> string"
  run_command :: "string \<Rightarrow> int"

text \<open>
  What changes while \<open>main\<close> runs: the durable chat sessions, the in-memory session of the
  chat id \<open>temp\<close>, the disk cache, the lines the user will still type at the console (when
  they run out, input is at its end) and the replies the remote model will still give
  (\<open>None\<close> for a failed call).
\<close>

type_synonym fingerprint = "string \<times> message list \<times> string \<times> rat \<times> rat \<times> nat option"

record world =
  sessions :: "string \<rightharpoonup> message list"
  temp_session :: "message list"
  disk_cache :: "fingerprint \<rightharpoonup> string"
  console :: "string list"
  remote_replies :: "string option list"

subsection \<open>Role Registry\<close>

definition DefaultRoles :: "env \<Rightarrow> kind \<Rightarrow> Role" where
  \<comment> \<open>Modelled from the spec: the built-in roles of \<open>sgpt/role.py\<close>, which is not among the
      sources; they are immutable and process-constant, one per kind.\<close>
  "DefaultRoles ev k = \<lparr>role_name = builtin_name ev k, role_text = builtin_text ev k, role_kind = k\<rparr>"

definition count_true :: "bool list \<Rightarrow> nat" where
  "count_true bs = length (filter (\<lambda>b. b) bs)"

definition DefaultRoles_check_get :: "env \<Rightarrow> bool \<Rightarrow> bool \<Rightarrow> bool \<Rightarrow> error + Role" where
  \<comment> \<open>Modelled from the spec: \<open>DefaultRoles.check_get\<close> of \<open>sgpt/role.py\<close>, which is not
      among the sources. It fails with \<open>ConfigurationError\<close> if more than one flag is set and
      otherwise returns the unique built-in role matching the set flag, or the plain default
      role if none is set.\<close>
  "DefaultRoles_check_get ev s d c =
     (if 1 < count_true [s, d, c] then Inl ConfigurationError
      else Inr (DefaultRoles ev
             (if s then DefaultShell else if d then DefaultDescribeShell
              else if c then DefaultCode else DefaultPlain)))"

definition SystemRole_get :: "env \<Rightarrow> string \<Rightarrow> error + Role" where
  \<comment> \<open>Modelled from the spec: \<open>SystemRole.get\<close> of \<open>sgpt/role.py\<close>, which is not among the
      sources. It looks the name up in the persisted roles and fails with \<open>NotFoundError\<close>
      if it is absent.\<close>
  "SystemRole_get ev n = (case persisted_roles ev n of None \<Rightarrow> Inl NotFoundError | Some r \<Rightarrow> Inr r)"

text \<open>Lines 186 to 190 of \<open>main\<close>: the role and the lookups made to find it.\<close>

definition resolve_role :: "env \<Rightarrow> args \<Rightarrow> (error + Role) \<times> event list" where
  "resolve_role ev a =
     (if \<not> truthy (role a)
      then (DefaultRoles_check_get ev (shell a) (describe_shell a) (code a),
            [CheckGet (shell a) (describe_shell a) (code a)])
      else (SystemRole_get ev (the (role a)), [SystemRoleGet (the (role a))]))"

subsection \<open>Chat Session Store, Disk Cache, Completion Handler\<close>

definition load :: "world \<Rightarrow> string \<Rightarrow> message list" where
  \<comment> \<open>Modelled from the spec: \<open>load\<close> of the Chat Session Store (\<open>sgpt/handlers\<close>, not among
      the sources): the messages of the session, empty if the id is unseen; \<open>temp\<close> is the
      in-memory session.\<close>
  "load w i = (if i = ''temp'' then temp_session w
               else case sessions w i of None \<Rightarrow> [] | Some ms \<Rightarrow> ms)"

definition store :: "string \<Rightarrow> message list \<Rightarrow> world \<Rightarrow> world" where
  \<comment> \<open>Modelled from the spec: the commit of the Chat Session Store; \<open>temp\<close> is never written
      to durable storage.\<close>
  "store i ms w = (if i = ''temp'' then w\<lparr>temp_session := ms\<rparr>
                   else w\<lparr>sessions := (sessions w)(i \<mapsto> ms)\<rparr>)"

definition remote_model :: "message list \<Rightarrow> world \<Rightarrow> (error + string) \<times> event list \<times> world" where
  \<comment> \<open>Modelled from the spec: the remote model boundary; any failure is a
      \<open>GenerationError\<close>.\<close>
  "remote_model ms w =
     (case remote_replies w of
        [] \<Rightarrow> (Inl GenerationError, [RemoteCall ms], w)
      | r # rs \<Rightarrow> (case r of None \<Rightarrow> Inl GenerationError | Some t \<Rightarrow> Inr t,
                   [RemoteCall ms], w\<lparr>remote_replies := rs\<rparr>))"

definition get_or_compute ::
  "fingerprint \<Rightarrow> message list \<Rightarrow> bool \<Rightarrow> world \<Rightarrow> (error + string) \<times> event list \<times> world" where
  \<comment> \<open>Modelled from the spec: \<open>get_or_compute\<close> of the Disk Cache (\<open>sgpt/cache.py\<close>, not among
      the sources). Without caching it is a pass-through; with caching a hit is replayed and
      a miss is computed and stored.\<close>
  "get_or_compute fp ms use_cache w =
     (if \<not> use_cache then remote_model ms w
      else case disk_cache w fp of
             Some t \<Rightarrow> (Inr t, [], w)
           | None \<Rightarrow>
               (case remote_model ms w of
                  (Inl e, evs, w1) \<Rightarrow> (Inl e, evs, w1)
                | (Inr t, evs, w1) \<Rightarrow> (Inr t, evs, w1\<lparr>disk_cache := (disk_cache w1)(fp \<mapsto> t)\<rparr>)))"

definition Handler_handle ::
  "Role \<Rightarrow> string option \<Rightarrow> string option \<Rightarrow> string \<Rightarrow> rat \<Rightarrow> rat \<Rightarrow> string option \<Rightarrow> bool
     \<Rightarrow> nat option \<Rightarrow> world \<Rightarrow> (error + string) \<times> event list \<times> world" where
  \<comment> \<open>Modelled from the spec: \<open>handle\<close> of the Completion Handler (\<open>sgpt/handlers\<close>, not
      among the sources), steps 1 to 7: load the prior messages of the chat id if one is
      given, prepend the system message on the first turn, append the user message, resolve
      the response through the cache, commit to the session only if a chat id was given and
      the response arrived, return the full text.\<close>
  "Handler_handle r p img m t tp chat_id use_cache max_tokens w =
     (let prior = (case chat_id of None \<Rightarrow> [] | Some i \<Rightarrow> load w i);
          msgs0 = (if \<exists>x \<in> set prior. speaker x = System then prior
                   else \<lparr>speaker = System, content = Some (role_text r), image_ref = None\<rparr> # prior);
          msgs = msgs0 @ [\<lparr>speaker = User, content = p, image_ref = img\<rparr>];
          fp = (role_text r, msgs, m, t, tp, max_tokens)
      in case get_or_compute fp msgs use_cache w of
           (Inl e, evs, w1) \<Rightarrow> (Inl e, HandleCall r p chat_id # evs, w1)
         | (Inr full_text, evs, w1) \<Rightarrow>
             (Inr full_text, HandleCall r p chat_id # evs,
              case chat_id of
                None \<Rightarrow> w1
              | Some i \<Rightarrow>
                  store i (msgs @ [\<lparr>speaker = Assistant, content = Some full_text,
                                    image_ref = None\<rparr>]) w1))"

text \<open>
  The three handler classes as \<open>main\<close> calls them: \<open>DefaultHandler\<close> is given no chat id,
  \<open>ChatHandler\<close> the chat id.
\<close>

definition DefaultHandler_handle ::
  "Role \<Rightarrow> string option \<Rightarrow> string option \<Rightarrow> string \<Rightarrow> rat \<Rightarrow> rat \<Rightarrow> bool \<Rightarrow> nat option
     \<Rightarrow> world \<Rightarrow> (error + string) \<times> event list \<times> world" where
  "DefaultHandler_handle r p img m t tp use_cache max_tokens w =
     Handler_handle r p img m t tp None use_cache max_tokens w"

definition ChatHandler_handle ::
  "Role \<Rightarrow> string option \<Rightarrow> string option \<Rightarrow> string \<Rightarrow> rat \<Rightarrow> rat \<Rightarrow> string \<Rightarrow> bool
     \<Rightarrow> nat option \<Rightarrow> world \<Rightarrow> (error + string) \<times> event list \<times> world" where
  "ChatHandler_handle r p img m t tp chat_id use_cache max_tokens w =
     Handler_handle r p img m t tp (Some chat_id) use_cache max_tokens w"

lemma remote_model_console: "remote_model ms w = (res, evs, w1) \<Longrightarrow> console w1 = console w"
  by (auto simp: remote_model_def split: list.splits)

lemma get_or_compute_console:
  "get_or_compute fp ms uc w = (res, evs, w1) \<Longrightarrow> console w1 = console w"
  by (auto simp: get_or_compute_def split: if_splits option.splits prod.splits sum.splits
      dest: remote_model_console)

lemma Handler_handle_console:
  "Handler_handle r p img m t tp cid uc mt w = (res, evs, w1) \<Longrightarrow> console w1 = console w"
  by (auto simp: Handler_handle_def Let_def store_def
      split: prod.splits sum.splits option.splits if_splits dest: get_or_compute_console)

subsection \<open>REPL Driver\<close>

function Repl_loop :: "Role \<Rightarrow> string \<Rightarrow> string \<Rightarrow> rat \<Rightarrow> rat \<Rightarrow> bool \<Rightarrow> world
    \<Rightarrow> (error + unit) \<times> event list \<times> world" where
  \<comment> \<open>Modelled from the spec: the loop of the REPL Driver (\<open>sgpt/handlers/repl_handler.py\<close>,
      not among the sources). Reading takes one line, and end of input or an empty line leads
      to Exited; Generating calls the Completion Handler with the chat id; Printed writes the
      text and goes back to Reading; Exited is terminal and ends the process.\<close>
  "Repl_loop r chat_id m t tp use_cache w =
     (case console w of
        [] \<Rightarrow> (Inl Exited, [ReplExited], w)
      | l # ls \<Rightarrow>
          if l = [] then (Inl Exited, [ReplExited], w\<lparr>console := ls\<rparr>)
          else (case Handler_handle r (Some l) None m t tp (Some chat_id) use_cache None
                       (w\<lparr>console := ls\<rparr>) of
                  (Inl e, evs, w1) \<Rightarrow> (Inl e, evs, w1)
                | (Inr full_text, evs, w1) \<Rightarrow>
                    (case Repl_loop r chat_id m t tp use_cache w1 of
                       (res, evs', w2) \<Rightarrow> (res, evs @ Printed full_text # evs', w2))))"
  by pat_completeness auto
termination
  by (relation "measure (\<lambda>(r, chat_id, m, t, tp, use_cache, w). length (console w))")
     (auto dest!: Handler_handle_console[OF sym])

definition ReplHandler_handle ::
  "string \<Rightarrow> Role \<Rightarrow> string option \<Rightarrow> string \<Rightarrow> rat \<Rightarrow> rat \<Rightarrow> bool \<Rightarrow> world
     \<Rightarrow> (error + unit) \<times> event list \<times> world" where
  \<comment> \<open>Modelled from the spec: \<open>ReplHandler(repl, role).handle\<close>, which is not among the
      sources: the REPL Driver started on the session named by the REPL id. The comment at
      the call in \<open>main\<close> says that control stays in this loop until the user exits.\<close>
  "ReplHandler_handle chat_id r p m t tp use_cache w =
     (case Repl_loop r chat_id m t tp use_cache w of
        (res, evs, w1) \<Rightarrow> (res, ReplStarted chat_id # evs, w1))"

subsection \<open>Shell Execution Loop\<close>

text \<open>
  \<open>Choice(("e", "d", "a", "y"), case_sensitive=False)\<close> accepts the four letters in
  either case and returns the choice as it is listed.
\<close>

definition Choice_convert :: "string \<Rightarrow> string option" where
  "Choice_convert v =
     (if v = ''e'' \<or> v = ''E'' then Some ''e''
      else if v = ''d'' \<or> v = ''D'' then Some ''d''
      else if v = ''a'' \<or> v = ''A'' then Some ''a''
      else if v = ''y'' \<or> v = ''Y'' then Some ''y''
      else None)"

text \<open>
  \<open>typer.prompt\<close> with a default: an empty line stands for the default, a line that the
  type does not accept is asked for again, and the end of input raises \<open>Abort\<close>.
\<close>

fun prompt_lines :: "string \<Rightarrow> string list \<Rightarrow> (string \<times> string list) option" where
  "prompt_lines dflt [] = None"
| "prompt_lines dflt (l # ls) =
     (case Choice_convert (if l = [] then dflt else l) of
        Some c \<Rightarrow> Some (c, ls)
      | None \<Rightarrow> prompt_lines dflt ls)"

definition typer_prompt :: "string \<Rightarrow> world \<Rightarrow> (error + string) \<times> world" where
  "typer_prompt dflt w =
     (case prompt_lines dflt (console w) of
        None \<Rightarrow> (Inl ClickAbort, w\<lparr>console := []\<rparr>)
      | Some (c, rest) \<Rightarrow> (Inr c, w\<lparr>console := rest\<rparr>))"

lemma prompt_lines_shorter: "prompt_lines dflt ls = Some (c, rest) \<Longrightarrow> length rest < length ls"
  by (induction ls) (auto split: option.splits)

lemma typer_prompt_shorter:
  "typer_prompt dflt w = (Inr c, w1) \<Longrightarrow> length (console w1) < length (console w)"
  by (auto simp: typer_prompt_def split: option.splits dest: prompt_lines_shorter)

text \<open>Line 237: the default handed to \<open>typer.prompt\<close>.\<close>

definition prompt_default :: "env \<Rightarrow> string" where
  "prompt_default ev = (if DEFAULT_EXECUTE_SHELL_CMD ev = ''true'' then ''e'' else ''a'')"

text \<open>
  Lines 233 to 254, the body of \<open>while shell and not stdin_passed\<close>. Neither variable is
  assigned in the body, so the condition is tested once, in \<open>main\<close>, and \<open>shell_loop\<close> is
  the loop under a true condition: \<open>continue\<close> is the recursive call, \<open>break\<close> the return.
\<close>

function shell_loop :: "env \<Rightarrow> args \<Rightarrow> string \<Rightarrow> world \<Rightarrow> (error + unit) \<times> event list \<times> world" where
  "shell_loop ev a full_completion w =
     (case typer_prompt (prompt_default ev) w of
        (Inl e, w1) \<Rightarrow> (Inl e, [ShellPrompt (prompt_default ev)], w1)
      | (Inr option, w1) \<Rightarrow>
          if option = ''e'' \<or> option = ''y''
          then (Inr (),
                [ShellPrompt (prompt_default ev), Chose option,
                 RunCommand full_completion (run_command ev full_completion)], w1)
          else if option = ''d''
          then (case DefaultHandler_handle (DefaultRoles ev DefaultDescribeShell)
                       (Some full_completion) None (model a) (temperature a)
                       (top_probability a) (cache a) None w1 of
                  (Inl e, evs, w2) \<Rightarrow>
                    (Inl e, ShellPrompt (prompt_default ev) # Chose option # evs, w2)
                | (Inr described, evs, w2) \<Rightarrow>
                    (case shell_loop ev a full_completion w2 of
                       (res, evs', w3) \<Rightarrow>
                         (res, ShellPrompt (prompt_default ev) # Chose option # evs @ evs', w3)))
          else (Inr (), [ShellPrompt (prompt_default ev), Chose option], w1))"
  by pat_completeness auto
termination
  by (relation "measure (\<lambda>(ev, a, full_completion, w). length (console w))")
     (auto simp: DefaultHandler_handle_def
           dest!: Handler_handle_console[OF sym] typer_prompt_shorter[OF sym])

subsection \<open>\<open>main\<close>\<close>

text \<open>\<open>needle in haystack\<close> on strings.\<close>

fun contains :: "string \<Rightarrow> string \<Rightarrow> bool" where
  "contains needle [] = (needle = [])"
| "contains needle (c # cs) = (take (length needle) (c # cs) = needle \<or> contains needle cs)"

definition only_one_msg :: string where
  "only_one_msg = ''Only one of --shell, --describe-shell, and --code options can be used at a time.''"

definition chat_repl_msg :: string where
  "chat_repl_msg = ''--chat and --repl options cannot be used together.''"

definition editor_stdin_msg :: string where
  "editor_stdin_msg = ''--editor option cannot be used with stdin input.''"

definition image_model_msg :: string where
  "image_model_msg = ''--image prompt requires gpt-4-vision-preview model''"

text \<open>Line 143.\<close>

definition stdin_passed :: "env \<Rightarrow> bool" where
  "stdin_passed ev = (\<not> stdin_isatty ev)"

text \<open>Lines 145 and 146: the prompt after standard input was read, and the read itself.\<close>

definition piped_prompt :: "env \<Rightarrow> args \<Rightarrow> string option \<times> event list" where
  "piped_prompt ev a =
     (if stdin_passed ev \<and> \<not> truthy (repl a)
      then (Some (stdin_read ev @ ''\<newline>\<newline>'' @ (case prompt a of None \<Rightarrow> [] | Some p \<Rightarrow> p)),
            [StdinRead])
      else (prompt a, []))"

text \<open>Lines 148 to 160: the four checks, in their order; \<open>None\<close> when all pass.\<close>

definition check_options :: "env \<Rightarrow> args \<Rightarrow> string option \<Rightarrow> error option" where
  "check_options ev a p =
     (if \<not> truthy p \<and> \<not> editor a \<and> \<not> truthy (repl a) then Some MissingParameter
      else if 1 < count_true [shell a, describe_shell a, code a]
      then Some (BadArgumentUsage only_one_msg)
      else if truthy (chat a) \<and> truthy (repl a) then Some (BadArgumentUsage chat_repl_msg)
      else if editor a \<and> stdin_passed ev then Some (BadArgumentUsage editor_stdin_msg)
      else None)"

text \<open>Lines 162 to 175: the image reference.\<close>

definition image_url_of :: "env \<Rightarrow> args \<Rightarrow> (error + string option) \<times> event list" where
  "image_url_of ev a =
     (if truthy (image_opt a)
      then if model a \<noteq> ''gpt-4-vision-preview''
           then (Inl (BadArgumentUsage image_model_msg), [])
           else if contains ''https://'' (the (image_opt a)) \<or> contains ''http://'' (the (image_opt a))
           then (Inr (image_opt a), [])
           else (case open_rb ev (the (image_opt a)) of
                   None \<Rightarrow> (Inl OSError, [FileRead (the (image_opt a))])
                 | Some bytes \<Rightarrow>
                     (Inr (Some (''data:image/jpeg;base64,'' @ b64encode ev bytes)),
                      [FileRead (the (image_opt a))]))
      else (Inr None, []))"

text \<open>Lines 177 to 181.\<close>

definition max_tokens_of :: "args \<Rightarrow> nat option" where
  "max_tokens_of a = (if model a = ''gpt-4-vision-preview'' then Some 4096 else None)"

text \<open>Lines 183 and 184.\<close>

definition edited_prompt :: "env \<Rightarrow> args \<Rightarrow> string option \<Rightarrow> (error + string option) \<times> event list" where
  "edited_prompt ev a p =
     (if editor a
      then (case get_edited_prompt ev of Inl e \<Rightarrow> Inl e | Inr t \<Rightarrow> Inr (Some t), [EditorOpened])
      else (Inr p, []))"

text \<open>
  Lines 192 to 231, from the resolved role on: \<open>--tokenize\<close> prints and returns
  (\<open>Inr None\<close>); a REPL id starts the REPL, and the statements after that call run if it
  returns; then the chat or the default handler produces the completion (\<open>Inr (Some text)\<close>).
\<close>

definition run_handlers ::
  "env \<Rightarrow> args \<Rightarrow> string option \<Rightarrow> string option \<Rightarrow> Role \<Rightarrow> world
     \<Rightarrow> (error + string option) \<times> event list \<times> world" where
  "run_handlers ev a p image_url role_class w =
     (if tokenize a
      then (case count_tokens ev (model a) p of
              Inl e \<Rightarrow> (Inl e, [], w)
            | Inr n \<Rightarrow> (Inr None, [TokensPrinted n], w))
      else case (if truthy (repl a)
                 then ReplHandler_handle (the (repl a)) role_class p (model a) (temperature a)
                        (top_probability a) (cache a) w
                 else (Inr (), [], w)) of
             (Inl e, evs, w1) \<Rightarrow> (Inl e, evs, w1)
           | (Inr u, evs, w1) \<Rightarrow>
               (case (if truthy (chat a)
                      then ChatHandler_handle role_class p image_url (model a) (temperature a)
                             (top_probability a) (the (chat a)) (cache a) (max_tokens_of a) w1
                      else DefaultHandler_handle role_class p image_url (model a) (temperature a)
                             (top_probability a) (cache a) (max_tokens_of a) w1) of
                  (Inl e, evs', w2) \<Rightarrow> (Inl e, evs @ evs', w2)
                | (Inr full_completion, evs', w2) \<Rightarrow> (Inr (Some full_completion), evs @ evs', w2)))"

text \<open>Lines 143 to 231: everything up to the completion.\<close>

definition generate :: "env \<Rightarrow> args \<Rightarrow> world \<Rightarrow> (error + string option) \<times> event list \<times> world" where
  "generate ev a w =
     (case piped_prompt ev a of
        (p, ev0) \<Rightarrow>
          (case check_options ev a p of
             Some e \<Rightarrow> (Inl e, ev0, w)
           | None \<Rightarrow>
               (case image_url_of ev a of
                  (Inl e, ev1) \<Rightarrow> (Inl e, ev0 @ ev1, w)
                | (Inr image_url, ev1) \<Rightarrow>
                    (case edited_prompt ev a p of
                       (Inl e, ev2) \<Rightarrow> (Inl e, ev0 @ ev1 @ ev2, w)
                     | (Inr p', ev2) \<Rightarrow>
                         (case resolve_role ev a of
                            (Inl e, ev3) \<Rightarrow> (Inl e, ev0 @ ev1 @ ev2 @ ev3, w)
                          | (Inr role_class, ev3) \<Rightarrow>
                              (case run_handlers ev a p' image_url role_class w of
                                 (res, ev4, w1) \<Rightarrow>
                                   (res, ev0 @ ev1 @ ev2 @ ev3 @ ev4, w1)))))))"

text \<open>
  The body of \<open>main\<close>, lines 143 to 254: after the completion, the loop
  \<open>while shell and not stdin_passed\<close>.
\<close>

definition main :: "env \<Rightarrow> args \<Rightarrow> world \<Rightarrow> (error + unit) \<times> event list \<times> world" where
  "main ev a w =
     (case generate ev a w of
        (Inl e, evs, w1) \<Rightarrow> (Inl e, evs, w1)
      | (Inr None, evs, w1) \<Rightarrow> (Inr (), evs, w1)
      | (Inr (Some full_completion), evs, w1) \<Rightarrow>
          if shell a \<and> \<not> stdin_passed ev
          then (case shell_loop ev a full_completion w1 of
                  (res, evs', w2) \<Rightarrow> (res, evs @ evs', w2))
          else (Inr (), evs, w1))"

text \<open>Whether the Shell Execution Loop was entered: its first prompt was shown.\<close>

fun is_shell_prompt :: "event \<Rightarrow> bool" where
  "is_shell_prompt (ShellPrompt d) = True"
| "is_shell_prompt e = False"

definition loop_entered :: "event list \<Rightarrow> bool" where
  "loop_entered evs = (\<exists>e \<in> set evs. is_shell_prompt e)"

text \<open>The events by where they come from: lines 143 to 190, the REPL, the shell loop.\<close>

fun is_pre_event :: "event \<Rightarrow> bool" where
  "is_pre_event StdinRead = True"
| "is_pre_event (FileRead f) = True"
| "is_pre_event EditorOpened = True"
| "is_pre_event (CheckGet s d c) = True"
| "is_pre_event (SystemRoleGet n) = True"
| "is_pre_event e = False"

fun is_repl_event :: "event \<Rightarrow> bool" where
  "is_repl_event (ReplStarted i) = True"
| "is_repl_event ReplExited = True"
| "is_repl_event (Printed t) = True"
| "is_repl_event e = False"

fun is_loop_event :: "event \<Rightarrow> bool" where
  "is_loop_event (ShellPrompt d) = True"
| "is_loop_event (Chose c) = True"
| "is_loop_event (RunCommand c s) = True"
| "is_loop_event e = False"

subsection \<open>Sample inputs\<close>

definition env0 :: env where
  "env0 = \<lparr>stdin_isatty = True, stdin_read = [], DEFAULT_EXECUTE_SHELL_CMD = ''false'',
           get_edited_prompt = Inr ''edited'', open_rb = (\<lambda>f. None), b64encode = (\<lambda>b. b),
           count_tokens = (\<lambda>m p. Inr 2), persisted_roles = Map.empty,
           builtin_name = (\<lambda>k. ''builtin''), builtin_text = (\<lambda>k. ''text''),
           run_command = (\<lambda>c. 1)\<rparr>"

definition args0 :: args where
  "args0 = \<lparr>prompt = Some ''list files'', model = ''gpt-4'', temperature = 0,
            top_probability = 1, shell = False, describe_shell = False, code = False,
            editor = False, cache = True, chat = None, image_opt = None, repl = None,
            tokenize = False, role = None\<rparr>"

definition world0 :: world where
  "world0 = \<lparr>sessions = Map.empty, temp_session = [], disk_cache = Map.empty, console = [],
             remote_replies = []\<rparr>"

definition args_shell :: args where
  "args_shell = args0\<lparr>shell := True, cache := False\<rparr>"

definition world_execute :: world where
  "world_execute = world0\<lparr>console := [''d'', ''x'', ''E'', ''a''],
                           remote_replies := [Some ''ls'', Some ''lists files'']\<rparr>"

definition world_abort :: world where
  "world_abort = world0\<lparr>console := [''d'', [], ''e''],
                         remote_replies := [Some ''ls'', Some ''lists files'']\<rparr>"

definition world_describe_fails :: world where
  "world_describe_fails = world0\<lparr>console := [''d'', ''e''], remote_replies := [Some ''ls'', None]\<rparr>"

definition world_describe :: world where
  "world_describe = world0\<lparr>console := [''d'', ''a''], remote_replies := [Some ''lists files'']\<rparr>"

definition args_repl :: args where
  "args_repl = args0\<lparr>repl := Some ''r'', cache := False\<rparr>"

definition world_repl :: world where
  "world_repl = world0\<lparr>console := [''hi'', [], ''more''],
                        remote_replies := [Some ''hello'', Some ''x'']\<rparr>"

definition env_piped :: env where
  "env_piped = env0\<lparr>stdin_isatty := False, stdin_read := ''ls -l''\<rparr>"

definition args_piped :: args where
  "args_piped = args0\<lparr>prompt := None, cache := False\<rparr>"

definition world_piped :: world where
  "world_piped = world0\<lparr>remote_replies := [Some ''explained'']\<rparr>"

declare Repl_loop.simps [simp del]
declare shell_loop.simps [simp del]

section \<open>Properties\<close>

subsection \<open>Unfolding and evaluation\<close>

lemmas run_defs = main_def generate_def piped_prompt_def check_options_def image_url_of_def
  edited_prompt_def resolve_role_def run_handlers_def stdin_passed_def count_true_def
  DefaultRoles_check_get_def SystemRole_get_def DefaultRoles_def max_tokens_of_def
  DefaultHandler_handle_def ChatHandler_handle_def ReplHandler_handle_def Handler_handle_def
  get_or_compute_def remote_model_def load_def store_def typer_prompt_def Choice_convert_def
  prompt_default_def truthy_def loop_entered_def Let_def

lemmas sample_defs = env0_def args0_def world0_def args_shell_def world_execute_def
  world_abort_def world_describe_fails_def world_describe_def args_repl_def world_repl_def
  env_piped_def args_piped_def world_piped_def

lemma main_collapse:
  "main ev a w = (fst (main ev a w), fst (snd (main ev a w)), snd (snd (main ev a w)))"
  by simp

subsection \<open>The handlers\<close>

lemma remote_model_events: "remote_model ms w = (res, evs, w1) \<Longrightarrow> evs = [RemoteCall ms]"
  by (auto simp: remote_model_def split: list.splits)

lemma remote_model_sessions:
  "remote_model ms w = (res, evs, w1) \<Longrightarrow> sessions w1 = sessions w \<and> temp_session w1 = temp_session w"
  by (auto simp: remote_model_def split: list.splits)

lemma get_or_compute_events:
  "get_or_compute fp ms uc w = (res, evs, w1) \<Longrightarrow> evs = [] \<or> evs = [RemoteCall ms]"
  by (auto simp: get_or_compute_def split: if_splits option.splits prod.splits sum.splits
      dest: remote_model_events)

lemma get_or_compute_sessions:
  "get_or_compute fp ms uc w = (res, evs, w1) \<Longrightarrow>
   sessions w1 = sessions w \<and> temp_session w1 = temp_session w"
  by (auto simp: get_or_compute_def split: if_splits option.splits prod.splits sum.splits
      dest: remote_model_sessions)

lemma Handler_handle_events:
  "Handler_handle r p img m t tp cid uc mt w = (res, evs, w1) \<Longrightarrow>
   \<exists>rest. evs = HandleCall r p cid # rest \<and> (rest = [] \<or> (\<exists>ms. rest = [RemoteCall ms]))"
  by (auto simp: Handler_handle_def Let_def split: prod.splits sum.splits
      dest: get_or_compute_events)

lemma Handler_handle_no_chat_id:
  "Handler_handle r p img m t tp None uc mt w = (res, evs, w1) \<Longrightarrow>
   sessions w1 = sessions w \<and> temp_session w1 = temp_session w"
  by (auto simp: Handler_handle_def Let_def split: prod.splits sum.splits
      dest: get_or_compute_sessions)

subsection \<open>The prompt and the shell loop\<close>

lemma prompt_lines_choice:
  "prompt_lines dflt ls = Some (c, rest) \<Longrightarrow> c = ''e'' \<or> c = ''d'' \<or> c = ''a'' \<or> c = ''y''"
  by (induction ls) (auto simp: Choice_convert_def split: option.splits if_splits)

lemma typer_prompt_choice:
  "typer_prompt dflt w = (Inr c, w1) \<Longrightarrow> c = ''e'' \<or> c = ''d'' \<or> c = ''a'' \<or> c = ''y''"
  by (auto simp: typer_prompt_def split: option.splits dest: prompt_lines_choice)

lemma typer_prompt_world:
  "typer_prompt dflt w = (res, w1) \<Longrightarrow> \<exists>rest. w1 = w\<lparr>console := rest\<rparr>"
  by (auto simp: typer_prompt_def split: option.splits)

lemma shell_loop_prompt_aborts:
  "typer_prompt (prompt_default ev) w = (Inl e, w1) \<Longrightarrow>
   shell_loop ev a fc w = (Inl e, [ShellPrompt (prompt_default ev)], w1)"
  by (subst shell_loop.simps) simp

lemma shell_loop_execute:
  "typer_prompt (prompt_default ev) w = (Inr c, w1) \<Longrightarrow> c = ''e'' \<or> c = ''y'' \<Longrightarrow>
   shell_loop ev a fc w =
     (Inr (), [ShellPrompt (prompt_default ev), Chose c, RunCommand fc (run_command ev fc)], w1)"
  by (subst shell_loop.simps) auto

lemma shell_loop_abort:
  "typer_prompt (prompt_default ev) w = (Inr ''a'', w1) \<Longrightarrow>
   shell_loop ev a fc w = (Inr (), [ShellPrompt (prompt_default ev), Chose ''a''], w1)"
  by (subst shell_loop.simps) simp

lemma shell_loop_describe:
  "typer_prompt (prompt_default ev) w = (Inr ''d'', w1) \<Longrightarrow>
   shell_loop ev a fc w =
     (case DefaultHandler_handle (DefaultRoles ev DefaultDescribeShell) (Some fc) None (model a)
             (temperature a) (top_probability a) (cache a) None w1 of
        (Inl e, evs, w2) \<Rightarrow> (Inl e, ShellPrompt (prompt_default ev) # Chose ''d'' # evs, w2)
      | (Inr described, evs, w2) \<Rightarrow>
          (case shell_loop ev a fc w2 of
             (res, evs', w3) \<Rightarrow>
               (res, ShellPrompt (prompt_default ev) # Chose ''d'' # evs @ evs', w3)))"
  by (subst shell_loop.simps) simp

lemma shell_loop_first_event:
  "shell_loop ev a fc w = (res, evs, w') \<Longrightarrow> \<exists>rest. evs = ShellPrompt (prompt_default ev) # rest"
  by (subst (asm) shell_loop.simps) (auto split: prod.splits sum.splits if_splits)

text \<open>What a whole run of the loop does, by induction on the lines left at the console.\<close>

lemma shell_loop_run:
  "shell_loop ev a fc w = (res, evs, w') \<Longrightarrow>
     sessions w' = sessions w \<and> temp_session w' = temp_session w
     \<and> (Chose ''e'' \<in> set evs \<or> Chose ''y'' \<in> set evs \<longrightarrow>
          res = Inr () \<and> filter is_run evs = [RunCommand fc (run_command ev fc)]
          \<and> last evs = RunCommand fc (run_command ev fc))
     \<and> (Chose ''a'' \<in> set evs \<longrightarrow>
          res = Inr () \<and> filter is_run evs = [] \<and> last evs = Chose ''a'')
     \<and> (\<forall>d. ShellPrompt d \<in> set evs \<longrightarrow> d = prompt_default ev)"
proof (induction "length (console w)" arbitrary: w res evs w' rule: less_induct)
  case less
  obtain r w1 where tp: "typer_prompt (prompt_default ev) w = (r, w1)"
    by (cases "typer_prompt (prompt_default ev) w") auto
  from typer_prompt_world[OF tp] have s1: "sessions w1 = sessions w" "temp_session w1 = temp_session w"
    by auto
  show ?case
  proof (cases r)
    case (Inl e)
    with tp less.prems shell_loop_prompt_aborts[of ev w e w1 a fc] s1 show ?thesis by auto
  next
    case (Inr c)
    note tpc = tp[unfolded Inr]
    from typer_prompt_choice[OF tpc] consider "c = ''e'' \<or> c = ''y''" | "c = ''a''" | "c = ''d''"
      by auto
    then show ?thesis
    proof cases
      case 1
      with shell_loop_execute[OF tpc 1, of a fc] less.prems s1 show ?thesis by auto
    next
      case 2
      with shell_loop_abort[of ev w w1 a fc] tpc less.prems s1 show ?thesis by auto
    next
      case 3
      obtain hr hevs w2 where h: "DefaultHandler_handle (DefaultRoles ev DefaultDescribeShell)
             (Some fc) None (model a) (temperature a) (top_probability a) (cache a) None w1
           = (hr, hevs, w2)"
        by (metis prod_cases3)
      from h have hh: "Handler_handle (DefaultRoles ev DefaultDescribeShell)
             (Some fc) None (model a) (temperature a) (top_probability a) None (cache a) None w1
           = (hr, hevs, w2)"
        by (simp add: DefaultHandler_handle_def)
      from Handler_handle_no_chat_id[OF hh] s1
      have s2: "sessions w2 = sessions w" "temp_session w2 = temp_session w" by auto
      from Handler_handle_events[OF hh]
      have hn: "filter is_run hevs = []" "Chose ''e'' \<notin> set hevs" "Chose ''y'' \<notin> set hevs"
        "Chose ''a'' \<notin> set hevs" "\<forall>d. ShellPrompt d \<notin> set hevs"
        by auto
      from Handler_handle_console[OF hh] typer_prompt_shorter[OF tpc]
      have shorter: "length (console w2) < length (console w)" by simp
      show ?thesis
      proof (cases hr)
        case (Inl e)
        with shell_loop_describe[of ev w w1 a fc] tpc 3 h less.prems
        have "res = Inl e" "evs = ShellPrompt (prompt_default ev) # Chose ''d'' # hevs" "w' = w2"
          by auto
        with s2 hn show ?thesis by auto
      next
        case (Inr described)
        obtain res2 evs2 w3 where rec: "shell_loop ev a fc w2 = (res2, evs2, w3)"
          by (metis prod_cases3)
        from shell_loop_describe[of ev w w1 a fc] tpc 3 h Inr rec less.prems
        have eq: "res = res2" "evs = ShellPrompt (prompt_default ev) # Chose ''d'' # hevs @ evs2"
          "w' = w3"
          by auto
        from shell_loop_first_event[OF rec] have ne: "evs2 \<noteq> []" by auto
        from less.hyps[OF shorter rec] s2 eq hn ne show ?thesis
          by auto
      qed
    qed
  qed
qed

lemma completion_not_loop: "is_completion x \<Longrightarrow> \<not> is_loop_event x"
  by (cases x) auto

lemma pre_not_loop: "is_pre_event x \<Longrightarrow> \<not> is_loop_event x"
  by (cases x) auto

lemma run_not_pre: "is_run x \<Longrightarrow> is_loop_event x"
  by (cases x) auto

lemma chose_is_loop_event: "Chose c \<in> set evs \<Longrightarrow> \<not> (\<forall>x \<in> set evs. \<not> is_loop_event x)"
  by (auto intro!: bexI[of _ "Chose c"])

lemma shell_loop_events:
  "shell_loop ev a fc w = (res, evs, w') \<Longrightarrow> \<forall>x \<in> set evs. is_loop_event x \<or> is_completion x"
proof (induction "length (console w)" arbitrary: w res evs w' rule: less_induct)
  case less
  obtain r w1 where tp: "typer_prompt (prompt_default ev) w = (r, w1)"
    by (cases "typer_prompt (prompt_default ev) w") auto
  show ?case
  proof (cases r)
    case (Inl e)
    with tp less.prems shell_loop_prompt_aborts[of ev w e w1 a fc] show ?thesis by auto
  next
    case (Inr c)
    note tpc = tp[unfolded Inr]
    from typer_prompt_choice[OF tpc] consider "c = ''e'' \<or> c = ''y''" | "c = ''a''" | "c = ''d''"
      by auto
    then show ?thesis
    proof cases
      case 1
      with shell_loop_execute[OF tpc 1, of a fc] less.prems show ?thesis by auto
    next
      case 2
      with shell_loop_abort[of ev w w1 a fc] tpc less.prems show ?thesis by auto
    next
      case 3
      obtain hr hevs w2 where h: "DefaultHandler_handle (DefaultRoles ev DefaultDescribeShell)
             (Some fc) None (model a) (temperature a) (top_probability a) (cache a) None w1
           = (hr, hevs, w2)"
        by (metis prod_cases3)
      from h have hh: "Handler_handle (DefaultRoles ev DefaultDescribeShell)
             (Some fc) None (model a) (temperature a) (top_probability a) None (cache a) None w1
           = (hr, hevs, w2)"
        by (simp add: DefaultHandler_handle_def)
      from Handler_handle_events[OF hh]
      have hn: "\<forall>x \<in> set hevs. is_completion x" by auto
      from Handler_handle_console[OF hh] typer_prompt_shorter[OF tpc]
      have shorter: "length (console w2) < length (console w)" by simp
      show ?thesis
      proof (cases hr)
        case (Inl e)
        with shell_loop_describe[of ev w w1 a fc] tpc 3 h less.prems
        have "evs = ShellPrompt (prompt_default ev) # Chose ''d'' # hevs"
          by auto
        with hn show ?thesis by auto
      next
        case (Inr described)
        obtain res2 evs2 w3 where rec: "shell_loop ev a fc w2 = (res2, evs2, w3)"
          by (metis prod_cases3)
        from shell_loop_describe[of ev w w1 a fc] tpc 3 h Inr rec less.prems
        have eq: "evs = ShellPrompt (prompt_default ev) # Chose ''d'' # hevs @ evs2"
          by auto
        from less.hyps[OF shorter rec] eq hn show ?thesis
          by auto
      qed
    qed
  qed
qed

subsection \<open>The REPL loop\<close>

lemma Repl_loop_generate:
  "console w = l # ls \<Longrightarrow> l \<noteq> [] \<Longrightarrow>
   Repl_loop r i m t tp uc w =
     (case Handler_handle r (Some l) None m t tp (Some i) uc None (w\<lparr>console := ls\<rparr>) of
        (Inl e, evs, w1) \<Rightarrow> (Inl e, evs, w1)
      | (Inr full_text, evs, w1) \<Rightarrow>
          (case Repl_loop r i m t tp uc w1 of
             (res, evs', w2) \<Rightarrow> (res, evs @ Printed full_text # evs', w2)))"
  by (subst Repl_loop.simps) simp

lemma Repl_loop_exit:
  "console w = [] \<or> (\<exists>ls. console w = [] # ls) \<Longrightarrow>
   \<exists>w1. Repl_loop r i m t tp uc w = (Inl Exited, [ReplExited], w1)"
  by (subst Repl_loop.simps) auto

lemma Repl_loop_run:
  "Repl_loop r i m t tp uc w = (res, evs, w') \<Longrightarrow>
     (\<exists>e. res = Inl e)
     \<and> (\<forall>x \<in> set evs. is_completion x \<or> (\<exists>t. x = Printed t) \<or> x = ReplExited)
     \<and> (ReplExited \<in> set evs \<longrightarrow>
          res = Inl Exited \<and> (\<exists>pre. evs = pre @ [ReplExited] \<and> ReplExited \<notin> set pre))"
proof (induction "length (console w)" arbitrary: w res evs w' rule: less_induct)
  case less
  show ?case
  proof (cases "console w")
    case Nil
    with less.prems Repl_loop_exit[of w r i m t tp uc] show ?thesis by auto
  next
    case (Cons l ls)
    show ?thesis
    proof (cases "l = []")
      case True
      with Cons less.prems Repl_loop_exit[of w r i m t tp uc] show ?thesis by auto
    next
      case False
      obtain hr hevs w1 where h: "Handler_handle r (Some l) None m t tp (Some i) uc None
                       (w\<lparr>console := ls\<rparr>) = (hr, hevs, w1)"
        by (metis prod_cases3)
      from Handler_handle_events[OF h]
      have hn: "\<forall>x \<in> set hevs. is_completion x" "ReplExited \<notin> set hevs" by auto
      from Handler_handle_console[OF h] Cons
      have shorter: "length (console w1) < length (console w)" by simp
      show ?thesis
      proof (cases hr)
        case (Inl e)
        with Repl_loop_generate[OF Cons False, of r i m t tp uc] h less.prems
        have "res = Inl e" "evs = hevs"
          by auto
        with hn show ?thesis by auto
      next
        case (Inr answer)
        obtain res2 evs2 w2 where rec: "Repl_loop r i m t tp uc w1 = (res2, evs2, w2)"
          by (metis prod_cases3)
        from Repl_loop_generate[OF Cons False, of r i m t tp uc] h Inr rec less.prems
        have eq: "res = res2" "evs = hevs @ Printed answer # evs2"
          by auto
        from less.hyps[OF shorter rec] have ih: "\<exists>e. res2 = Inl e"
          "\<forall>x \<in> set evs2. is_completion x \<or> (\<exists>t. x = Printed t) \<or> x = ReplExited"
          "ReplExited \<in> set evs2 \<longrightarrow>
             res2 = Inl Exited \<and> (\<exists>pre. evs2 = pre @ [ReplExited] \<and> ReplExited \<notin> set pre)"
          by auto
        show ?thesis
        proof (intro conjI impI)
          show "\<exists>e. res = Inl e" using ih eq by simp
          show "\<forall>x \<in> set evs. is_completion x \<or> (\<exists>t. x = Printed t) \<or> x = ReplExited"
            using ih(2) hn(1) eq by auto
        next
          assume "ReplExited \<in> set evs"
          with eq hn have "ReplExited \<in> set evs2" by auto
          with ih(3) obtain pre where pre: "res2 = Inl Exited" "evs2 = pre @ [ReplExited]"
            "ReplExited \<notin> set pre" by auto
          show "res = Inl Exited" using pre eq by simp
          have "evs = (hevs @ Printed answer # pre) @ [ReplExited]" using pre eq by simp
          moreover have "ReplExited \<notin> set (hevs @ Printed answer # pre)" using pre hn by auto
          ultimately show "\<exists>pre. evs = pre @ [ReplExited] \<and> ReplExited \<notin> set pre" by blast
        qed
      qed
    qed
  qed
qed

subsection \<open>Lines 143 to 231\<close>

lemma generate_check_fails:
  "check_options ev a (fst (piped_prompt ev a)) = Some e \<Longrightarrow>
   generate ev a w = (Inl e, snd (piped_prompt ev a), w)"
  by (cases "piped_prompt ev a") (simp add: generate_def)

lemma main_check_fails:
  "check_options ev a (fst (piped_prompt ev a)) = Some e \<Longrightarrow>
   main ev a w = (Inl e, snd (piped_prompt ev a), w)"
  by (simp add: main_def generate_check_fails)

lemma piped_prompt_events: "piped_prompt ev a = (p, evs) \<Longrightarrow> \<forall>x \<in> set evs. is_pre_event x"
  by (auto simp: piped_prompt_def split: if_splits)

lemma image_url_of_events: "image_url_of ev a = (r, evs) \<Longrightarrow> \<forall>x \<in> set evs. is_pre_event x"
  by (auto simp: image_url_of_def split: if_splits option.splits)

lemma edited_prompt_events: "edited_prompt ev a p = (r, evs) \<Longrightarrow> \<forall>x \<in> set evs. is_pre_event x"
  by (auto simp: edited_prompt_def split: if_splits)

lemma resolve_role_events: "resolve_role ev a = (r, evs) \<Longrightarrow> \<forall>x \<in> set evs. is_pre_event x"
  by (auto simp: resolve_role_def split: if_splits)

lemma generate_cases:
  assumes "generate ev a w = (res, evs, w1)"
  shows "(\<exists>e. res = Inl e \<and> w1 = w \<and> (\<forall>x \<in> set evs. is_pre_event x))
       \<or> (\<exists>pre p img r hevs. evs = pre @ hevs \<and> (\<forall>x \<in> set pre. is_pre_event x)
             \<and> run_handlers ev a p img r w = (res, hevs, w1))"
proof -
  obtain p ev0 where pp: "piped_prompt ev a = (p, ev0)" by (cases "piped_prompt ev a") auto
  note e0 = piped_prompt_events[OF pp]
  show ?thesis
  proof (cases "check_options ev a p")
    case (Some e)
    with assms pp e0 show ?thesis by (auto simp: generate_def)
  next
    case None
    obtain ir ev1 where im: "image_url_of ev a = (ir, ev1)" by (cases "image_url_of ev a") auto
    note e1 = image_url_of_events[OF im]
    show ?thesis
    proof (cases ir)
      case (Inl e)
      with assms pp None im e0 e1 show ?thesis by (auto simp: generate_def)
    next
      case (Inr img)
      obtain er ev2 where ed: "edited_prompt ev a p = (er, ev2)"
        by (cases "edited_prompt ev a p") auto
      note e2 = edited_prompt_events[OF ed]
      show ?thesis
      proof (cases er)
        case (Inl e)
        with assms pp None im Inr ed e0 e1 e2 show ?thesis by (auto simp: generate_def)
      next
        case p': (Inr p')
        obtain rr ev3 where rs: "resolve_role ev a = (rr, ev3)"
          by (cases "resolve_role ev a") auto
        note e3 = resolve_role_events[OF rs]
        show ?thesis
        proof (cases rr)
          case (Inl e)
          with assms pp None im Inr ed p' rs e0 e1 e2 e3 show ?thesis by (auto simp: generate_def)
        next
          case r: (Inr r)
          obtain res4 ev4 w4 where rh: "run_handlers ev a p' img r w = (res4, ev4, w4)"
            by (metis prod_cases3)
          with assms pp None im Inr ed p' rs r
          have "res = res4" "evs = (ev0 @ ev1 @ ev2 @ ev3) @ ev4" "w1 = w4"
            by (auto simp: generate_def)
          moreover have "\<forall>x \<in> set (ev0 @ ev1 @ ev2 @ ev3). is_pre_event x"
            using e0 e1 e2 e3 by auto
          ultimately show ?thesis using rh by blast
        qed
      qed
    qed
  qed
qed

lemma run_handlers_tokenize:
  "tokenize a \<Longrightarrow> run_handlers ev a p img r w = (res, evs, w1) \<Longrightarrow>
   w1 = w \<and> (\<forall>fc. res \<noteq> Inr (Some fc)) \<and> (evs = [] \<or> (\<exists>n. evs = [TokensPrinted n]))"
  by (auto simp: run_handlers_def split: sum.splits)

lemma run_handlers_repl_outcome:
  assumes "\<not> tokenize a" and "truthy (repl a)"
    and "run_handlers ev a p img r w = (res, evs, w1)"
  shows "\<exists>e revs. res = Inl e \<and> evs = ReplStarted (the (repl a)) # revs
           \<and> Repl_loop r (the (repl a)) (model a) (temperature a) (top_probability a) (cache a) w
               = (Inl e, revs, w1)"
proof -
  obtain rr revs w2 where rl: "Repl_loop r (the (repl a)) (model a) (temperature a)
      (top_probability a) (cache a) w = (rr, revs, w2)"
    by (metis prod_cases3)
  from Repl_loop_run[OF rl] obtain e where e: "rr = Inl e" by auto
  from assms rl e show ?thesis
    by (auto simp: run_handlers_def ReplHandler_handle_def)
qed

lemma run_handlers_plain:
  assumes "\<not> tokenize a" and "\<not> truthy (repl a)"
    and "run_handlers ev a p img r w = (res, evs, w1)"
  shows "\<forall>x \<in> set evs. is_completion x"
proof -
  obtain hr hevs w2 where h: "(if truthy (chat a)
                      then ChatHandler_handle r p img (model a) (temperature a)
                             (top_probability a) (the (chat a)) (cache a) (max_tokens_of a) w
                      else DefaultHandler_handle r p img (model a) (temperature a)
                             (top_probability a) (cache a) (max_tokens_of a) w) = (hr, hevs, w2)"
    by (metis prod_cases3)
  then have "\<exists>cid. Handler_handle r p img (model a) (temperature a) (top_probability a) cid
     (cache a) (max_tokens_of a) w = (hr, hevs, w2)"
    by (auto simp: ChatHandler_handle_def DefaultHandler_handle_def split: if_splits)
  then obtain cid where "Handler_handle r p img (model a) (temperature a) (top_probability a) cid
     (cache a) (max_tokens_of a) w = (hr, hevs, w2)" by blast
  from Handler_handle_events[OF this] have "\<forall>x \<in> set hevs. is_completion x" by auto
  moreover from assms h have "evs = hevs"
    by (auto simp: run_handlers_def split: sum.splits)
  ultimately show ?thesis by simp
qed

lemma run_handlers_no_loop_events:
  assumes "run_handlers ev a p img r w = (res, evs, w1)"
  shows "\<forall>x \<in> set evs. \<not> is_loop_event x"
proof (cases "tokenize a")
  case True
  from run_handlers_tokenize[OF True assms] show ?thesis by auto
next
  case False
  show ?thesis
  proof (cases "truthy (repl a)")
    case True
    from run_handlers_repl_outcome[OF False True assms] obtain e revs where
      r: "evs = ReplStarted (the (repl a)) # revs"
      "Repl_loop r (the (repl a)) (model a) (temperature a) (top_probability a) (cache a) w
               = (Inl e, revs, w1)" by auto
    from Repl_loop_run[OF r(2)]
    have "\<forall>x \<in> set revs. is_completion x \<or> (\<exists>t. x = Printed t) \<or> x = ReplExited"
      by simp
    then have "\<forall>x \<in> set revs. \<not> is_loop_event x"
      using completion_not_loop by fastforce
    with r(1) show ?thesis by simp
  next
    case nr: False
    from run_handlers_plain[OF False nr assms] completion_not_loop show ?thesis by blast
  qed
qed

lemma generate_no_loop_events:
  assumes "generate ev a w = (res, evs, w1)"
  shows "\<forall>x \<in> set evs. \<not> is_loop_event x"
  using generate_cases[OF assms]
proof (elim disjE exE conjE)
  fix e assume "\<forall>x \<in> set evs. is_pre_event x"
  then show ?thesis using pre_not_loop by blast
next
  fix pre p img r hevs
  assume "evs = pre @ hevs" "\<forall>x \<in> set pre. is_pre_event x"
    "run_handlers ev a p img r w = (res, hevs, w1)"
  with run_handlers_no_loop_events[of ev a p img r w res hevs w1] pre_not_loop
  show ?thesis by auto
qed

lemma is_shell_prompt_iff: "is_shell_prompt e = (\<exists>d. e = ShellPrompt d)"
  by (cases e) auto

lemma loop_entered_iff: "loop_entered evs = (\<exists>d. ShellPrompt d \<in> set evs)"
  by (auto simp: loop_entered_def is_shell_prompt_iff)

lemma not_loop_entered: "\<forall>x \<in> set evs. \<not> is_loop_event x \<Longrightarrow> \<not> loop_entered evs"
  by (auto simp: loop_entered_iff)

lemma main_loop_cases:
  assumes "main ev a w = (res, evs, w')"
  shows "(\<forall>x \<in> set evs. \<not> is_loop_event x)
       \<or> (\<exists>fc gevs w1 levs. generate ev a w = (Inr (Some fc), gevs, w1)
             \<and> shell a \<and> stdin_isatty ev
             \<and> shell_loop ev a fc w1 = (res, levs, w')
             \<and> evs = gevs @ levs \<and> (\<forall>x \<in> set gevs. \<not> is_loop_event x))"
proof -
  obtain gres gevs w1 where g: "generate ev a w = (gres, gevs, w1)"
    by (metis prod_cases3)
  note gn = generate_no_loop_events[OF g]
  show ?thesis
  proof (cases "\<exists>fc. gres = Inr (Some fc) \<and> shell a \<and> \<not> stdin_passed ev")
    case True
    then obtain fc where fc: "gres = Inr (Some fc)" "shell a" "\<not> stdin_passed ev" by auto
    obtain lres levs w2 where l: "shell_loop ev a fc w1 = (lres, levs, w2)"
      by (metis prod_cases3)
    with fc g assms have "evs = gevs @ levs" "res = lres" "w' = w2"
      by (auto simp: main_def)
    with l fc g gn show ?thesis by (auto simp: stdin_passed_def)
  next
    case False
    with assms g have "evs = gevs"
      by (auto simp: main_def split: sum.splits option.splits if_splits)
    with gn show ?thesis by simp
  qed
qed

text \<open>Lines 143 to 231 when standard input is piped and no REPL is asked for.\<close>

lemma generate_piped:
  assumes "\<not> stdin_isatty ev" and "\<not> truthy (repl a)"
  shows "generate ev a w =
     (if 1 < count_true [shell a, describe_shell a, code a]
      then (Inl (BadArgumentUsage only_one_msg), [StdinRead], w)
      else if editor a then (Inl (BadArgumentUsage editor_stdin_msg), [StdinRead], w)
      else case image_url_of ev a of
             (Inl e, ev1) \<Rightarrow> (Inl e, StdinRead # ev1, w)
           | (Inr image_url, ev1) \<Rightarrow>
               (case resolve_role ev a of
                  (Inl e, ev3) \<Rightarrow> (Inl e, StdinRead # ev1 @ ev3, w)
                | (Inr role_class, ev3) \<Rightarrow>
                    (case run_handlers ev a (Some (stdin_read ev @ ''\<newline>\<newline>'' @ (case prompt a of None \<Rightarrow> [] | Some p \<Rightarrow> p))) image_url role_class w of
                       (res, ev4, w1) \<Rightarrow> (res, StdinRead # ev1 @ ev3 @ ev4, w1))))"
proof -
  have p: "piped_prompt ev a = (Some (stdin_read ev @ ''\<newline>\<newline>'' @ (case prompt a of None \<Rightarrow> [] | Some p \<Rightarrow> p)), [StdinRead])"
    using assms by (simp add: piped_prompt_def stdin_passed_def)
  have t: "truthy (Some (stdin_read ev @ ''\<newline>\<newline>'' @ (case prompt a of None \<Rightarrow> [] | Some p \<Rightarrow> p)))"
    by (simp add: truthy_def)
  show ?thesis
    using assms t
    by (auto simp: generate_def p check_options_def stdin_passed_def edited_prompt_def
        split: prod.splits sum.splits)
qed

lemma Handler_handle_error:
  "Handler_handle r p img m t tp cid uc mt w = (Inl e, evs, w1) \<Longrightarrow> e = GenerationError"
  by (auto simp: Handler_handle_def get_or_compute_def remote_model_def Let_def
      split: prod.splits sum.splits option.splits if_splits list.splits)

lemma image_url_of_error:
  "image_url_of ev a = (Inl e, evs) \<Longrightarrow> e \<noteq> MissingParameter"
  by (auto simp: image_url_of_def split: if_splits option.splits)

lemma resolve_role_error:
  "resolve_role ev a = (Inl e, evs) \<Longrightarrow> e \<noteq> MissingParameter"
  by (auto simp: resolve_role_def DefaultRoles_check_get_def SystemRole_get_def
      split: if_splits option.splits)

lemma run_handlers_no_repl:
  assumes "\<not> truthy (repl a)" and "run_handlers ev a p img r w = (res, evs, w1)"
  shows "(\<forall>r' p' c. HandleCall r' p' c \<in> set evs \<longrightarrow> p' = p)
       \<and> (res = Inl MissingParameter \<longrightarrow>
            tokenize a \<and> count_tokens ev (model a) p = Inl MissingParameter)"
proof (cases "tokenize a")
  case True
  with assms(2) show ?thesis
    by (auto simp: run_handlers_def split: sum.splits)
next
  case False
  obtain hr hevs w2 where h: "(if truthy (chat a)
                      then ChatHandler_handle r p img (model a) (temperature a)
                             (top_probability a) (the (chat a)) (cache a) (max_tokens_of a) w
                      else DefaultHandler_handle r p img (model a) (temperature a)
                             (top_probability a) (cache a) (max_tokens_of a) w) = (hr, hevs, w2)"
    by (metis prod_cases3)
  then obtain cid where hh: "Handler_handle r p img (model a) (temperature a)
     (top_probability a) cid (cache a) (max_tokens_of a) w = (hr, hevs, w2)"
    by (auto simp: ChatHandler_handle_def DefaultHandler_handle_def split: if_splits)
  from assms False h have eq: "evs = hevs" "res = map_sum id Some hr"
    by (auto simp: run_handlers_def split: sum.splits)
  from Handler_handle_events[OF hh] have 1: "\<forall>r' p' c. HandleCall r' p' c \<in> set hevs \<longrightarrow> p' = p"
    by auto
  have 2: "res \<noteq> Inl MissingParameter"
  proof (cases hr)
    case (Inl e)
    with Handler_handle_error[of r p img _ _ _ cid _ _ w e hevs w2] hh eq show ?thesis by auto
  next
    case (Inr x)
    with eq show ?thesis by simp
  qed
  from 1 2 eq show ?thesis by simp
qed

lemma main_piped:
  assumes "\<not> stdin_isatty ev" and "\<not> truthy (repl a)" and "main ev a w = (res, evs, w')"
  shows "(\<exists>rest. evs = StdinRead # rest)
       \<and> (\<forall>r p c. HandleCall r p c \<in> set evs \<longrightarrow>
            p = Some (stdin_read ev @ ''\<newline>\<newline>'' @ (case prompt a of None \<Rightarrow> [] | Some p \<Rightarrow> p)))
       \<and> (res = Inl MissingParameter \<longrightarrow>
            tokenize a
            \<and> count_tokens ev (model a)
                  (Some (stdin_read ev @ ''\<newline>\<newline>'' @ (case prompt a of None \<Rightarrow> [] | Some p \<Rightarrow> p)))
                = Inl MissingParameter)"
proof -
  let ?J = "Some (stdin_read ev @ ''\<newline>\<newline>'' @ (case prompt a of None \<Rightarrow> [] | Some p \<Rightarrow> p))"
  obtain gres gevs w1 where g: "generate ev a w = (gres, gevs, w1)"
    by (metis prod_cases3)
  from assms g have m: "evs = gevs" "res = map_sum id (\<lambda>x. ()) gres"
    by (auto simp: main_def stdin_passed_def split: sum.splits option.splits)
  have not_handle: "\<forall>r p c. HandleCall r p c \<notin> set xs" if "\<forall>x \<in> set xs. is_pre_event x" for xs
    using that by fastforce
  note gp = generate_piped[OF assms(1,2), of w, unfolded g]
  show ?thesis
  proof (cases "1 < count_true [shell a, describe_shell a, code a] \<or> editor a")
    case True
    with gp m show ?thesis by (auto split: if_splits)
  next
    case False
    obtain ir ev1 where im: "image_url_of ev a = (ir, ev1)" by (cases "image_url_of ev a") auto
    note n1 = not_handle[OF image_url_of_events[OF im]]
    show ?thesis
    proof (cases ir)
      case (Inl e)
      with gp False im m n1 image_url_of_error[of ev a e ev1] show ?thesis by auto
    next
      case (Inr img)
      obtain rr ev3 where rs: "resolve_role ev a = (rr, ev3)" by (cases "resolve_role ev a") auto
      note n3 = not_handle[OF resolve_role_events[OF rs]]
      show ?thesis
      proof (cases rr)
        case (Inl e)
        with gp False im Inr rs m n1 n3 resolve_role_error[of ev a e ev3] show ?thesis by auto
      next
        case r: (Inr r)
        obtain res4 ev4 w4 where rh: "run_handlers ev a ?J img r w = (res4, ev4, w4)"
          by (metis prod_cases3)
        with gp False im Inr rs r have ge: "gres = res4" "gevs = StdinRead # ev1 @ ev3 @ ev4"
          by auto
        from run_handlers_no_repl[OF assms(2) rh] ge m n1 n3 show ?thesis
          by (cases res4) auto
      qed
    qed
  qed
qed

subsection \<open>Sample runs\<close>

lemma sample_execute:
  "main env0 args_shell world_execute =
     (Inr (),
      [CheckGet True False False,
       HandleCall (DefaultRoles env0 DefaultShell) (Some ''list files'') None,
       RemoteCall [\<lparr>speaker = System, content = Some ''text'', image_ref = None\<rparr>,
                   \<lparr>speaker = User, content = Some ''list files'', image_ref = None\<rparr>],
       ShellPrompt ''a'', Chose ''d'',
       HandleCall (DefaultRoles env0 DefaultDescribeShell) (Some ''ls'') None,
       RemoteCall [\<lparr>speaker = System, content = Some ''text'', image_ref = None\<rparr>,
                   \<lparr>speaker = User, content = Some ''ls'', image_ref = None\<rparr>],
       ShellPrompt ''a'', Chose ''e'', RunCommand ''ls'' 1],
      world0\<lparr>console := [''a'']\<rparr>)"
  apply (simp add: run_defs sample_defs)
  apply (subst shell_loop.simps, simp add: run_defs)
  apply (subst shell_loop.simps, simp add: run_defs)
  done

lemma sample_abort:
  "main env0 args_shell world_abort =
     (Inr (),
      [CheckGet True False False,
       HandleCall (DefaultRoles env0 DefaultShell) (Some ''list files'') None,
       RemoteCall [\<lparr>speaker = System, content = Some ''text'', image_ref = None\<rparr>,
                   \<lparr>speaker = User, content = Some ''list files'', image_ref = None\<rparr>],
       ShellPrompt ''a'', Chose ''d'',
       HandleCall (DefaultRoles env0 DefaultDescribeShell) (Some ''ls'') None,
       RemoteCall [\<lparr>speaker = System, content = Some ''text'', image_ref = None\<rparr>,
                   \<lparr>speaker = User, content = Some ''ls'', image_ref = None\<rparr>],
       ShellPrompt ''a'', Chose ''a''],
      world0\<lparr>console := [''e'']\<rparr>)"
  apply (simp add: run_defs sample_defs)
  apply (subst shell_loop.simps, simp add: run_defs)
  apply (subst shell_loop.simps, simp add: run_defs)
  done

lemma sample_repl:
  "main env0 args_repl world_repl =
     (Inl Exited,
      [CheckGet False False False, ReplStarted ''r'',
       HandleCall (DefaultRoles env0 DefaultPlain) (Some ''hi'') (Some ''r''),
       RemoteCall [\<lparr>speaker = System, content = Some ''text'', image_ref = None\<rparr>,
                   \<lparr>speaker = User, content = Some ''hi'', image_ref = None\<rparr>],
       Printed ''hello'', ReplExited],
      world0\<lparr>sessions := [''r'' \<mapsto>
                 [\<lparr>speaker = System, content = Some ''text'', image_ref = None\<rparr>,
                  \<lparr>speaker = User, content = Some ''hi'', image_ref = None\<rparr>,
                  \<lparr>speaker = Assistant, content = Some ''hello'', image_ref = None\<rparr>]],
              console := [''more''], remote_replies := [Some ''x'']\<rparr>)"
  apply (simp add: run_defs sample_defs)
  apply (subst Repl_loop.simps, simp add: run_defs)
  apply (subst Repl_loop.simps, simp add: run_defs)
  done

section \<open>The claims\<close>

text \<open>
  Claim C1. Whenever two or more of \<open>--shell\<close>, \<open>--describe-shell\<close> and \<open>--code\<close> are set,
  \<open>main\<close> raises a click usage error and leaves the world as it was. The error is the
  \<open>BadArgumentUsage\<close> of line 152, unless the check of line 148 for a missing prompt, which
  comes first, already raised \<open>MissingParameter\<close>. Up to there the only thing done is the
  read of a piped standard input: no role is resolved and no completion is asked for.
\<close>

theorem conflicting_flags_fail:
  assumes "(shell a \<and> describe_shell a) \<or> (shell a \<and> code a) \<or> (describe_shell a \<and> code a)"
  shows "\<exists>e evs. main ev a w = (Inl e, evs, w)
           \<and> is_usage_error e
           \<and> e = (if \<not> truthy (prompt a) \<and> stdin_isatty ev \<and> \<not> editor a \<and> \<not> truthy (repl a)
                  then MissingParameter else BadArgumentUsage only_one_msg)
           \<and> evs = (if \<not> stdin_isatty ev \<and> \<not> truthy (repl a) then [StdinRead] else [])
           \<and> (\<forall>x \<in> set evs. \<not> is_role_resolution x \<and> \<not> is_completion x)"
proof -
  let ?e = "if \<not> truthy (prompt a) \<and> stdin_isatty ev \<and> \<not> editor a \<and> \<not> truthy (repl a)
            then MissingParameter else BadArgumentUsage only_one_msg"
  from assms have c: "1 < count_true [shell a, describe_shell a, code a]"
    by (auto simp: count_true_def)
  have p: "snd (piped_prompt ev a) =
             (if \<not> stdin_isatty ev \<and> \<not> truthy (repl a) then [StdinRead] else [])"
    by (simp add: piped_prompt_def stdin_passed_def)
  have "check_options ev a (fst (piped_prompt ev a)) = Some ?e"
    using c by (auto simp: check_options_def piped_prompt_def stdin_passed_def truthy_def)
  from main_check_fails[OF this] p
  have "main ev a w =
          (Inl ?e, if \<not> stdin_isatty ev \<and> \<not> truthy (repl a) then [StdinRead] else [], w)"
    by simp
  then show ?thesis by auto
qed

theorem conflicting_flags_fail_witness:
  "shell (args0\<lparr>shell := True, code := True\<rparr>) \<and> code (args0\<lparr>shell := True, code := True\<rparr>)
   \<and> main env0 (args0\<lparr>shell := True, code := True\<rparr>) world0
       = (Inl (BadArgumentUsage only_one_msg), [], world0)"
  using conflicting_flags_fail[where a = "args0\<lparr>shell := True, code := True\<rparr>"
          and ev = env0 and w = world0]
  by (auto simp: args0_def env0_def truthy_def)

text \<open>
  Claim C2, amended. With at most one of the three flags set, role resolution is a function of
  the flags, the role name and the persisted roles. When a role is named (a non-empty string),
  only the persisted roles are consulted, not the flags: the outcome is the persisted role of
  that name, or \<open>NotFoundError\<close> when there is none. Otherwise only the flags are consulted and
  the resolution always succeeds, with the built-in role of the flag that is set, or the plain
  default role when none is set.
\<close>

theorem role_resolution:
  assumes "\<not> (shell a \<and> describe_shell a)" and "\<not> (shell a \<and> code a)"
    and "\<not> (describe_shell a \<and> code a)"
  shows "(truthy (role a) \<longrightarrow>
            resolve_role ev a =
              (case persisted_roles ev (the (role a)) of
                 None \<Rightarrow> Inl NotFoundError | Some r \<Rightarrow> Inr r,
               [SystemRoleGet (the (role a))]))
       \<and> (\<not> truthy (role a) \<longrightarrow>
            (\<exists>r. resolve_role ev a = (Inr r, [CheckGet (shell a) (describe_shell a) (code a)])
               \<and> r = DefaultRoles ev (role_kind r)
               \<and> (shell a \<longrightarrow> role_kind r = DefaultShell)
               \<and> (describe_shell a \<longrightarrow> role_kind r = DefaultDescribeShell)
               \<and> (code a \<longrightarrow> role_kind r = DefaultCode)
               \<and> (\<not> shell a \<and> \<not> describe_shell a \<and> \<not> code a \<longrightarrow> role_kind r = DefaultPlain)))"
  using assms
  by (auto simp: resolve_role_def SystemRole_get_def DefaultRoles_check_get_def count_true_def
      DefaultRoles_def)

theorem role_resolution_witness:
  "\<not> (shell (args0\<lparr>code := True\<rparr>) \<and> describe_shell (args0\<lparr>code := True\<rparr>))
   \<and> \<not> (shell (args0\<lparr>code := True\<rparr>) \<and> code (args0\<lparr>code := True\<rparr>))
   \<and> \<not> (describe_shell (args0\<lparr>code := True\<rparr>) \<and> code (args0\<lparr>code := True\<rparr>))
   \<and> \<not> truthy (role (args0\<lparr>code := True\<rparr>))
   \<and> (\<exists>r. resolve_role env0 (args0\<lparr>code := True\<rparr>) = (Inr r, [CheckGet False False True])
          \<and> role_kind r = DefaultCode)"
proof -
  have h: "\<not> (shell (args0\<lparr>code := True\<rparr>) \<and> describe_shell (args0\<lparr>code := True\<rparr>))"
    "\<not> (shell (args0\<lparr>code := True\<rparr>) \<and> code (args0\<lparr>code := True\<rparr>))"
    "\<not> (describe_shell (args0\<lparr>code := True\<rparr>) \<and> code (args0\<lparr>code := True\<rparr>))"
    "\<not> truthy (role (args0\<lparr>code := True\<rparr>))"
    by (simp_all add: args0_def truthy_def)
  have f: "shell (args0\<lparr>code := True\<rparr>) = False" "describe_shell (args0\<lparr>code := True\<rparr>) = False"
    "code (args0\<lparr>code := True\<rparr>)"
    by (simp_all add: args0_def)
  from role_resolution[OF h(1-3), where ev = env0] h(4) f
  have "\<exists>r. resolve_role env0 (args0\<lparr>code := True\<rparr>) = (Inr r, [CheckGet False False True])
          \<and> role_kind r = DefaultCode"
    by auto
  with h show ?thesis by blast
qed

text \<open>
  Claim C2 says that role resolution is total for every command line with at most one of the
  three flags. It is not where a role is named that is not among the persisted ones: the
  lookup fails with \<open>NotFoundError\<close>, and so does \<open>main\<close>, with no role resolved.
\<close>

theorem unknown_role_not_resolved:
  "\<not> shell (args0\<lparr>role := Some ''nope''\<rparr>) \<and> \<not> describe_shell (args0\<lparr>role := Some ''nope''\<rparr>)
   \<and> \<not> code (args0\<lparr>role := Some ''nope''\<rparr>)
   \<and> resolve_role env0 (args0\<lparr>role := Some ''nope''\<rparr>) = (Inl NotFoundError, [SystemRoleGet ''nope''])
   \<and> main env0 (args0\<lparr>role := Some ''nope''\<rparr>) world0
        = (Inl NotFoundError, [SystemRoleGet ''nope''], world0)"
  by (simp add: run_defs sample_defs)

text \<open>
  Claim C3. Once a REPL session has started, \<open>main\<close> never returns normally into the
  statements that follow the call: from the start of the REPL on, the events and the outcome
  of \<open>main\<close> are those of the REPL loop, and nothing before the start asks for a completion.
  When the loop reaches Exited, \<open>main\<close> ends with \<open>Exited\<close> and the exit is the last event of
  the run, so that no completion is generated after it.
\<close>

theorem repl_exit_is_terminal:
  assumes "main ev a w = (res, evs, w')"
  shows "(ReplStarted i \<in> set evs \<longrightarrow>
            (\<exists>e pre r revs. res = Inl e \<and> evs = pre @ ReplStarted i # revs
               \<and> (\<forall>x \<in> set pre. \<not> is_completion x)
               \<and> Repl_loop r i (model a) (temperature a) (top_probability a) (cache a) w
                    = (res, revs, w')))
       \<and> (ReplExited \<in> set evs \<longrightarrow>
            res = Inl Exited \<and> (\<exists>pre. evs = pre @ [ReplExited] \<and> ReplExited \<notin> set pre))"
proof -
  obtain gres gevs w1 where g: "generate ev a w = (gres, gevs, w1)"
    by (metis prod_cases3)
  have pre_repl: "\<not> is_repl_event x \<and> \<not> is_completion x" if "is_pre_event x" for x
    using that by (cases x) auto
  have comp_repl: "\<not> is_repl_event x" if "is_completion x" for x
    using that by (cases x) auto
  have loop_repl: "\<not> is_repl_event x" if "is_loop_event x" for x
    using that by (cases x) auto
  have no_repl: ?thesis if "\<forall>x \<in> set evs. \<not> is_repl_event x"
    using that by fastforce
  from generate_cases[OF g] show ?thesis
  proof (elim disjE exE conjE)
    fix e assume "gres = Inl e" "\<forall>x \<in> set gevs. is_pre_event x"
    with g assms have "evs = gevs" "\<forall>x \<in> set gevs. \<not> is_repl_event x"
      using pre_repl by (auto simp: main_def)
    then show ?thesis using no_repl by simp
  next
    fix pre p img r hevs
    assume h: "gevs = pre @ hevs" "\<forall>x \<in> set pre. is_pre_event x"
      "run_handlers ev a p img r w = (gres, hevs, w1)"
    show ?thesis
    proof (cases "\<not> tokenize a \<and> truthy (repl a)")
      case True
      from run_handlers_repl_outcome[OF _ _ h(3)] True obtain e revs where
        r: "gres = Inl e" "hevs = ReplStarted (the (repl a)) # revs"
        "Repl_loop r (the (repl a)) (model a) (temperature a) (top_probability a) (cache a) w
               = (Inl e, revs, w1)" by auto
      from r(1) g assms have m: "res = Inl e" "evs = gevs" "w' = w1"
        by (auto simp: main_def)
      note rl = Repl_loop_run[OF r(3)]
      have revs_no_start: "ReplStarted i \<notin> set revs" using rl by auto
      have pre_no: "ReplStarted i \<notin> set pre" "ReplExited \<notin> set pre"
        "\<forall>x \<in> set pre. \<not> is_completion x"
        using h(2) pre_repl by fastforce+
      have evs: "evs = pre @ ReplStarted (the (repl a)) # revs" using m h r by simp
      have 1: "ReplStarted i \<in> set evs \<longrightarrow>
            (\<exists>e pre r revs. res = Inl e \<and> evs = pre @ ReplStarted i # revs
               \<and> (\<forall>x \<in> set pre. \<not> is_completion x)
               \<and> Repl_loop r i (model a) (temperature a) (top_probability a) (cache a) w
                    = (res, revs, w'))"
      proof
        assume "ReplStarted i \<in> set evs"
        with evs revs_no_start pre_no have "i = the (repl a)" by auto
        with evs m r pre_no show "\<exists>e pre r revs. res = Inl e \<and> evs = pre @ ReplStarted i # revs
               \<and> (\<forall>x \<in> set pre. \<not> is_completion x)
               \<and> Repl_loop r i (model a) (temperature a) (top_probability a) (cache a) w
                    = (res, revs, w')" by blast
      qed
      have 2: "ReplExited \<in> set evs \<longrightarrow>
            res = Inl Exited \<and> (\<exists>pre. evs = pre @ [ReplExited] \<and> ReplExited \<notin> set pre)"
      proof
        assume "ReplExited \<in> set evs"
        with evs pre_no have "ReplExited \<in> set revs" by auto
        with rl obtain mid where mid: "e = Exited" "revs = mid @ [ReplExited]"
          "ReplExited \<notin> set mid" by auto
        have "evs = (pre @ ReplStarted (the (repl a)) # mid) @ [ReplExited]"
          using evs mid by simp
        moreover have "ReplExited \<notin> set (pre @ ReplStarted (the (repl a)) # mid)"
          using pre_no mid by simp
        ultimately show "res = Inl Exited \<and> (\<exists>pre. evs = pre @ [ReplExited] \<and> ReplExited \<notin> set pre)"
          using m mid by blast
      qed
      from 1 2 show ?thesis by simp
    next
      case False
      have hn: "\<forall>x \<in> set hevs. \<not> is_repl_event x"
      proof (cases "tokenize a")
        case True
        from run_handlers_tokenize[OF True h(3)] show ?thesis by auto
      next
        case nt: False
        with False have "\<not> truthy (repl a)" by simp
        from run_handlers_plain[OF nt this h(3)] comp_repl show ?thesis by blast
      qed
      with h pre_repl have gn: "\<forall>x \<in> set gevs. \<not> is_repl_event x" by auto
      have "\<forall>x \<in> set evs. \<not> is_repl_event x"
      proof (cases "\<exists>fc. gres = Inr (Some fc) \<and> shell a \<and> \<not> stdin_passed ev")
        case True
        then obtain fc where fc: "gres = Inr (Some fc)" "shell a" "\<not> stdin_passed ev" by auto
        obtain lres levs w2 where l: "shell_loop ev a fc w1 = (lres, levs, w2)"
          by (metis prod_cases3)
        with fc g assms have "evs = gevs @ levs"
          by (auto simp: main_def)
        moreover from shell_loop_events[OF l] loop_repl comp_repl
        have "\<forall>x \<in> set levs. \<not> is_repl_event x" by blast
        ultimately show ?thesis using gn by auto
      next
        case False
        with assms g have "evs = gevs"
          by (auto simp: main_def split: sum.splits option.splits if_splits)
        with gn show ?thesis by simp
      qed
      then show ?thesis using no_repl by simp
    qed
  qed
qed

theorem repl_exit_is_terminal_witness:
  "ReplStarted ''r'' \<in> set (fst (snd (main env0 args_repl world_repl)))
   \<and> ReplExited \<in> set (fst (snd (main env0 args_repl world_repl)))
   \<and> fst (main env0 args_repl world_repl) = Inl Exited
   \<and> (\<exists>pre. fst (snd (main env0 args_repl world_repl)) = pre @ [ReplExited]
          \<and> ReplExited \<notin> set pre)"
proof -
  have h: "ReplStarted ''r'' \<in> set (fst (snd (main env0 args_repl world_repl)))"
    "ReplExited \<in> set (fst (snd (main env0 args_repl world_repl)))"
    by (simp_all add: sample_repl)
  with repl_exit_is_terminal[OF main_collapse, where ev = env0 and a = args_repl
      and w = world_repl and i = "''r''"]
  show ?thesis by blast
qed

text \<open>
  Claim C4, amended. The Shell Execution Loop is entered only if the shell flag is set and
  standard input is a terminal: without the flag, or with piped input, it is never entered.
  Conversely, whenever lines 143 to 231 end with a completion (the options pass the checks,
  \<open>--tokenize\<close> is not given, no REPL is started and the handler returns a text), the loop is
  entered exactly when the shell flag is set and standard input is a terminal.
\<close>

theorem shell_loop_entry:
  assumes "main ev a w = (res, evs, w')"
  shows "(loop_entered evs \<longrightarrow> shell a \<and> stdin_isatty ev)
       \<and> (\<forall>fc gevs w1. generate ev a w = (Inr (Some fc), gevs, w1) \<longrightarrow>
             (loop_entered evs \<longleftrightarrow> shell a \<and> stdin_isatty ev))"
proof -
  obtain gres gevs w1 where g: "generate ev a w = (gres, gevs, w1)"
    by (metis prod_cases3)
  note gn = not_loop_entered[OF generate_no_loop_events[OF g]]
  have a: "loop_entered evs \<longrightarrow> shell a \<and> stdin_isatty ev"
  proof (cases "\<exists>fc. gres = Inr (Some fc) \<and> shell a \<and> \<not> stdin_passed ev")
    case True
    then show ?thesis by (simp add: stdin_passed_def)
  next
    case False
    with assms g have "evs = gevs"
      by (auto simp: main_def split: sum.splits option.splits if_splits)
    with gn show ?thesis by simp
  qed
  have b: "loop_entered evs" if "gres = Inr (Some fc)" "shell a" "stdin_isatty ev" for fc
  proof -
    obtain lres levs w2 where l: "shell_loop ev a fc w1 = (lres, levs, w2)"
      by (metis prod_cases3)
    with that g assms have "evs = gevs @ levs"
      by (auto simp: main_def stdin_passed_def)
    with shell_loop_first_event[OF l] show ?thesis
      by (auto simp: loop_entered_iff)
  qed
  from a b g show ?thesis by auto
qed

theorem shell_loop_entry_witness:
  "loop_entered (fst (snd (main env0 args_shell world_execute)))
   \<and> shell args_shell \<and> stdin_isatty env0
   \<and> generate env0 args_shell world_execute =
       (Inr (Some ''ls''),
        [CheckGet True False False,
         HandleCall (DefaultRoles env0 DefaultShell) (Some ''list files'') None,
         RemoteCall [\<lparr>speaker = System, content = Some ''text'', image_ref = None\<rparr>,
                     \<lparr>speaker = User, content = Some ''list files'', image_ref = None\<rparr>]],
        world0\<lparr>console := [''d'', ''x'', ''E'', ''a''], remote_replies := [Some ''lists files'']\<rparr>)"
proof -
  have h: "loop_entered (fst (snd (main env0 args_shell world_execute)))"
    by (simp add: sample_execute loop_entered_def)
  have g: "generate env0 args_shell world_execute =
       (Inr (Some ''ls''),
        [CheckGet True False False,
         HandleCall (DefaultRoles env0 DefaultShell) (Some ''list files'') None,
         RemoteCall [\<lparr>speaker = System, content = Some ''text'', image_ref = None\<rparr>,
                     \<lparr>speaker = User, content = Some ''list files'', image_ref = None\<rparr>]],
        world0\<lparr>console := [''d'', ''x'', ''E'', ''a''], remote_replies := [Some ''lists files'']\<rparr>)"
    by (simp add: run_defs sample_defs)
  from shell_loop_entry[OF main_collapse, where ev = env0 and a = args_shell
      and w = world_execute] h g
  show ?thesis by blast
qed

text \<open>
  Claim C4 says that the Shell Execution Loop is entered if and only if the shell flag is set
  and standard input is a terminal. The "if" fails: with \<open>--shell --tokenize\<close> on a terminal,
  \<open>main\<close> prints the token count and returns at line 198, and the loop is never entered.
\<close>

theorem tokenize_skips_shell_loop:
  "shell (args0\<lparr>shell := True, tokenize := True\<rparr>) \<and> stdin_isatty env0
   \<and> main env0 (args0\<lparr>shell := True, tokenize := True\<rparr>) world0
        = (Inr (), [CheckGet True False False, TokensPrinted 2], world0)
   \<and> \<not> loop_entered [CheckGet True False False, TokensPrinted 2]"
  by (simp add: run_defs sample_defs)

text \<open>
  Claim C5, amended. In every iteration of the Shell Execution Loop in which the user chooses
  Describe, the Completion Handler is called once, with the built-in describe-shell role, the
  generated command as prompt and no chat id; the call makes at most one remote call and
  leaves every chat session, durable or temporary, as it was. When the call returns, the loop
  goes on with a new prompt; when it fails, the loop ends with that error.
\<close>

theorem describe_iteration:
  assumes "typer_prompt (prompt_default ev) w = (Inr ''d'', w1)"
  shows "\<exists>hr hevs w2.
     Handler_handle (DefaultRoles ev DefaultDescribeShell) (Some fc) None (model a)
         (temperature a) (top_probability a) None (cache a) None w1 = (hr, hevs, w2)
     \<and> (\<exists>rest. hevs = HandleCall (DefaultRoles ev DefaultDescribeShell) (Some fc) None # rest
           \<and> (rest = [] \<or> (\<exists>ms. rest = [RemoteCall ms])))
     \<and> sessions w2 = sessions w \<and> temp_session w2 = temp_session w
     \<and> (case hr of
          Inl e \<Rightarrow>
            shell_loop ev a fc w
              = (Inl e, ShellPrompt (prompt_default ev) # Chose ''d'' # hevs, w2)
        | Inr described \<Rightarrow>
            (\<exists>res evs' w3. shell_loop ev a fc w2 = (res, evs', w3)
               \<and> (\<exists>rest. evs' = ShellPrompt (prompt_default ev) # rest)
               \<and> shell_loop ev a fc w
                    = (res, ShellPrompt (prompt_default ev) # Chose ''d'' # hevs @ evs', w3)))"
proof -
  obtain hr hevs w2 where hh: "Handler_handle (DefaultRoles ev DefaultDescribeShell)
         (Some fc) None (model a) (temperature a) (top_probability a) None (cache a) None w1
       = (hr, hevs, w2)"
    by (metis prod_cases3)
  then have h: "DefaultHandler_handle (DefaultRoles ev DefaultDescribeShell)
         (Some fc) None (model a) (temperature a) (top_probability a) (cache a) None w1
       = (hr, hevs, w2)"
    by (simp add: DefaultHandler_handle_def)
  from typer_prompt_world[OF assms] Handler_handle_no_chat_id[OF hh]
  have s: "sessions w2 = sessions w" "temp_session w2 = temp_session w" by auto
  have l: "case hr of
          Inl e \<Rightarrow>
            shell_loop ev a fc w
              = (Inl e, ShellPrompt (prompt_default ev) # Chose ''d'' # hevs, w2)
        | Inr described \<Rightarrow>
            (\<exists>res evs' w3. shell_loop ev a fc w2 = (res, evs', w3)
               \<and> (\<exists>rest. evs' = ShellPrompt (prompt_default ev) # rest)
               \<and> shell_loop ev a fc w
                    = (res, ShellPrompt (prompt_default ev) # Chose ''d'' # hevs @ evs', w3))"
  proof (cases hr)
    case (Inl e)
    with shell_loop_describe[OF assms, of a fc] h show ?thesis by simp
  next
    case (Inr described)
    obtain res evs' w3 where rec: "shell_loop ev a fc w2 = (res, evs', w3)"
      by (metis prod_cases3)
    with shell_loop_describe[OF assms, of a fc] h Inr shell_loop_first_event[OF rec]
    show ?thesis by simp
  qed
  from hh Handler_handle_events[OF hh] s l show ?thesis by blast
qed

theorem describe_iteration_witness:
  "typer_prompt (prompt_default env0) world_describe
     = (Inr ''d'', world_describe\<lparr>console := [''a'']\<rparr>)
   \<and> (\<exists>hr hevs w2.
         Handler_handle (DefaultRoles env0 DefaultDescribeShell) (Some ''ls'') None
             (model args_shell) (temperature args_shell) (top_probability args_shell) None
             (cache args_shell) None (world_describe\<lparr>console := [''a'']\<rparr>) = (hr, hevs, w2)
         \<and> sessions w2 = sessions world_describe
         \<and> temp_session w2 = temp_session world_describe)
   \<and> shell_loop env0 args_shell ''ls'' world_describe =
       (Inr (),
        [ShellPrompt ''a'', Chose ''d'',
         HandleCall (DefaultRoles env0 DefaultDescribeShell) (Some ''ls'') None,
         RemoteCall [\<lparr>speaker = System, content = Some ''text'', image_ref = None\<rparr>,
                     \<lparr>speaker = User, content = Some ''ls'', image_ref = None\<rparr>],
         ShellPrompt ''a'', Chose ''a''],
        world0)"
proof -
  have h: "typer_prompt (prompt_default env0) world_describe
     = (Inr ''d'', world_describe\<lparr>console := [''a'']\<rparr>)"
    by (simp add: run_defs sample_defs)
  have l: "shell_loop env0 args_shell ''ls'' world_describe =
       (Inr (),
        [ShellPrompt ''a'', Chose ''d'',
         HandleCall (DefaultRoles env0 DefaultDescribeShell) (Some ''ls'') None,
         RemoteCall [\<lparr>speaker = System, content = Some ''text'', image_ref = None\<rparr>,
                     \<lparr>speaker = User, content = Some ''ls'', image_ref = None\<rparr>],
         ShellPrompt ''a'', Chose ''a''],
        world0)"
    apply (subst shell_loop.simps, simp add: run_defs sample_defs)
    apply (subst shell_loop.simps, simp add: run_defs sample_defs)
    done
  from describe_iteration[OF h, where fc = "''ls''" and a = args_shell] h l
  show ?thesis by blast
qed

text \<open>
  Claim C5 says that every iteration in which the user chooses Describe returns to Prompting.
  It does not when the completion call fails: the \<open>GenerationError\<close> ends \<open>main\<close>, and the
  user is not asked again although a line is waiting at the console.
\<close>

theorem describe_failure_ends_loop:
  "main env0 args_shell world_describe_fails =
     (Inl GenerationError,
      [CheckGet True False False,
       HandleCall (DefaultRoles env0 DefaultShell) (Some ''list files'') None,
       RemoteCall [\<lparr>speaker = System, content = Some ''text'', image_ref = None\<rparr>,
                   \<lparr>speaker = User, content = Some ''list files'', image_ref = None\<rparr>],
       ShellPrompt ''a'', Chose ''d'',
       HandleCall (DefaultRoles env0 DefaultDescribeShell) (Some ''ls'') None,
       RemoteCall [\<lparr>speaker = System, content = Some ''text'', image_ref = None\<rparr>,
                   \<lparr>speaker = User, content = Some ''ls'', image_ref = None\<rparr>]],
      world0\<lparr>console := [''e'']\<rparr>)"
  apply (simp add: run_defs sample_defs)
  apply (subst shell_loop.simps, simp add: run_defs)
  done

text \<open>
  Claim C6. In every run of the Shell Execution Loop in which the user chooses Execute (\<open>e\<close>,
  or \<open>y\<close> of the old versions), \<open>run_command\<close> is called exactly once, on the generated
  text; the call is the last event of the run, so the loop ends there; and the result is a
  normal return whatever exit status the child process had. The same holds of \<open>main\<close> as a
  whole, where the text is the completion that lines 143 to 231 produced.
\<close>

theorem execute_runs_once:
  "(shell_loop ev a fc w = (res, evs, w') \<and> (Chose ''e'' \<in> set evs \<or> Chose ''y'' \<in> set evs)
      \<longrightarrow> res = Inr () \<and> filter is_run evs = [RunCommand fc (run_command ev fc)]
          \<and> last evs = RunCommand fc (run_command ev fc))
   \<and> (main ev a w = (res, evs, w') \<and> (Chose ''e'' \<in> set evs \<or> Chose ''y'' \<in> set evs)
      \<longrightarrow> res = Inr ()
          \<and> (\<exists>cmd gevs w1. generate ev a w = (Inr (Some cmd), gevs, w1)
                \<and> filter is_run evs = [RunCommand cmd (run_command ev cmd)]
                \<and> last evs = RunCommand cmd (run_command ev cmd)))"
proof (intro conjI impI)
  assume "shell_loop ev a fc w = (res, evs, w') \<and> (Chose ''e'' \<in> set evs \<or> Chose ''y'' \<in> set evs)"
  with shell_loop_run[of ev a fc w res evs w']
  show "res = Inr ()" "filter is_run evs = [RunCommand fc (run_command ev fc)]"
    "last evs = RunCommand fc (run_command ev fc)" by blast+
next
  assume h: "main ev a w = (res, evs, w') \<and> (Chose ''e'' \<in> set evs \<or> Chose ''y'' \<in> set evs)"
  then have "\<not> (\<forall>x \<in> set evs. \<not> is_loop_event x)"
    using chose_is_loop_event by blast
  with main_loop_cases[of ev a w res evs w'] h obtain cmd gevs w1 levs where
    m: "generate ev a w = (Inr (Some cmd), gevs, w1)"
       "shell_loop ev a cmd w1 = (res, levs, w')" "evs = gevs @ levs"
       "\<forall>x \<in> set gevs. \<not> is_loop_event x" by blast
  from m(4) have g: "filter is_run gevs = []" "Chose ''e'' \<notin> set gevs" "Chose ''y'' \<notin> set gevs"
    using run_not_pre by (auto simp: filter_empty_conv)
  with h m(3) have "Chose ''e'' \<in> set levs \<or> Chose ''y'' \<in> set levs" by auto
  with shell_loop_run[OF m(2)] have r: "res = Inr ()"
    "filter is_run levs = [RunCommand cmd (run_command ev cmd)]"
    "last levs = RunCommand cmd (run_command ev cmd)" by auto
  from shell_loop_first_event[OF m(2)] have "levs \<noteq> []" by auto
  with r m g have e: "res = Inr ()" "filter is_run evs = [RunCommand cmd (run_command ev cmd)]"
    "last evs = RunCommand cmd (run_command ev cmd)" by auto
  then show "res = Inr ()" by simp
  from e m(1) show "\<exists>cmd gevs w1. generate ev a w = (Inr (Some cmd), gevs, w1)
                \<and> filter is_run evs = [RunCommand cmd (run_command ev cmd)]
                \<and> last evs = RunCommand cmd (run_command ev cmd)" by blast
qed

theorem execute_runs_once_witness:
  "Chose ''e'' \<in> set (fst (snd (main env0 args_shell world_execute)))
   \<and> fst (main env0 args_shell world_execute) = Inr ()
   \<and> run_command env0 ''ls'' = 1
   \<and> filter is_run (fst (snd (main env0 args_shell world_execute))) = [RunCommand ''ls'' 1]
   \<and> (\<exists>cmd. last (fst (snd (main env0 args_shell world_execute)))
               = RunCommand cmd (run_command env0 cmd))"
proof -
  have h: "Chose ''e'' \<in> set (fst (snd (main env0 args_shell world_execute)))"
    by (simp add: sample_execute)
  have r: "run_command env0 ''ls'' = 1"
    by (simp add: env0_def)
  have f: "filter is_run (fst (snd (main env0 args_shell world_execute))) = [RunCommand ''ls'' 1]"
    by (simp add: sample_execute)
  from execute_runs_once[where ev = env0 and a = args_shell and w = world_execute
      and res = "fst (main env0 args_shell world_execute)"
      and evs = "fst (snd (main env0 args_shell world_execute))"
      and w' = "snd (snd (main env0 args_shell world_execute))"] main_collapse h
  have "fst (main env0 args_shell world_execute) = Inr ()
      \<and> (\<exists>cmd. last (fst (snd (main env0 args_shell world_execute)))
               = RunCommand cmd (run_command env0 cmd))"
    by blast
  with h r f show ?thesis by blast
qed

text \<open>
  Claim C7. When the user chooses Abort, the loop returns at once: the only events of the
  iteration are the prompt and the choice, and the world differs from the one before the
  prompt only in the console lines read. In every run of the loop, and of \<open>main\<close>, in which
  Abort is chosen, no command is run, the choice is the last event, and the return is normal.
\<close>

theorem abort_does_nothing:
  "(typer_prompt (prompt_default ev) w = (Inr ''a'', w1)
      \<longrightarrow> shell_loop ev a fc w = (Inr (), [ShellPrompt (prompt_default ev), Chose ''a''], w1)
          \<and> (\<exists>rest. w1 = w\<lparr>console := rest\<rparr>))
   \<and> (shell_loop ev a fc w = (res, evs, w') \<and> Chose ''a'' \<in> set evs
      \<longrightarrow> res = Inr () \<and> filter is_run evs = [] \<and> last evs = Chose ''a'')
   \<and> (main ev a w = (res, evs, w') \<and> Chose ''a'' \<in> set evs
      \<longrightarrow> res = Inr () \<and> filter is_run evs = [] \<and> last evs = Chose ''a'')"
proof (intro conjI impI)
  assume h: "typer_prompt (prompt_default ev) w = (Inr ''a'', w1)"
  from shell_loop_abort[OF h]
  show "shell_loop ev a fc w = (Inr (), [ShellPrompt (prompt_default ev), Chose ''a''], w1)" .
  from typer_prompt_world[OF h] show "\<exists>rest. w1 = w\<lparr>console := rest\<rparr>" .
next
  assume h: "shell_loop ev a fc w = (res, evs, w') \<and> Chose ''a'' \<in> set evs"
  with shell_loop_run[of ev a fc w res evs w']
  show "res = Inr ()" "filter is_run evs = []" "last evs = Chose ''a''" by blast+
next
  assume h: "main ev a w = (res, evs, w') \<and> Chose ''a'' \<in> set evs"
  then have "\<not> (\<forall>x \<in> set evs. \<not> is_loop_event x)"
    using chose_is_loop_event by blast
  with main_loop_cases[of ev a w res evs w'] h obtain cmd gevs w1 levs where
    m: "shell_loop ev a cmd w1 = (res, levs, w')" "evs = gevs @ levs"
       "\<forall>x \<in> set gevs. \<not> is_loop_event x" by blast
  from m(3) have g: "filter is_run gevs = []" "Chose ''a'' \<notin> set gevs"
    using run_not_pre by (auto simp: filter_empty_conv)
  with h m(2) have "Chose ''a'' \<in> set levs" by auto
  with shell_loop_run[OF m(1)] have r: "res = Inr ()" "filter is_run levs = []"
    "last levs = Chose ''a''" by auto
  from shell_loop_first_event[OF m(1)] have "levs \<noteq> []" by auto
  with r m g show "res = Inr ()" "filter is_run evs = []" "last evs = Chose ''a''" by auto
qed

theorem abort_does_nothing_witness:
  "Chose ''a'' \<in> set (fst (snd (main env0 args_shell world_abort)))
   \<and> fst (main env0 args_shell world_abort) = Inr ()
   \<and> filter is_run (fst (snd (main env0 args_shell world_abort))) = []
   \<and> last (fst (snd (main env0 args_shell world_abort))) = Chose ''a''
   \<and> typer_prompt (prompt_default env0) (world0\<lparr>console := [''A'', ''e'']\<rparr>)
        = (Inr ''a'', world0\<lparr>console := [''e'']\<rparr>)
   \<and> shell_loop env0 args_shell ''ls'' (world0\<lparr>console := [''A'', ''e'']\<rparr>)
        = (Inr (), [ShellPrompt (prompt_default env0), Chose ''a''], world0\<lparr>console := [''e'']\<rparr>)"
proof -
  have h: "Chose ''a'' \<in> set (fst (snd (main env0 args_shell world_abort)))"
    by (simp add: sample_abort)
  have t: "typer_prompt (prompt_default env0) (world0\<lparr>console := [''A'', ''e'']\<rparr>)
        = (Inr ''a'', world0\<lparr>console := [''e'']\<rparr>)"
    by (simp add: run_defs sample_defs)
  note a = abort_does_nothing[where ev = env0 and a = args_shell and fc = "''ls''"
      and w = "world0\<lparr>console := [''A'', ''e'']\<rparr>"
      and ?w1.0 = "world0\<lparr>console := [''e'']\<rparr>"]
  note b = abort_does_nothing[where ev = env0 and a = args_shell and w = world_abort
      and res = "fst (main env0 args_shell world_abort)"
      and evs = "fst (snd (main env0 args_shell world_abort))"
      and w' = "snd (snd (main env0 args_shell world_abort))"]
  from a t have 1: "shell_loop env0 args_shell ''ls'' (world0\<lparr>console := [''A'', ''e'']\<rparr>)
        = (Inr (), [ShellPrompt (prompt_default env0), Chose ''a''], world0\<lparr>console := [''e'']\<rparr>)"
    by blast
  from b main_collapse h have 2: "fst (main env0 args_shell world_abort) = Inr ()
   \<and> filter is_run (fst (snd (main env0 args_shell world_abort))) = []
   \<and> last (fst (snd (main env0 args_shell world_abort))) = Chose ''a''"
    by blast
  from h t 1 2 show ?thesis by blast
qed

text \<open>
  Claim C8. The default handed to \<open>typer.prompt\<close> is \<open>e\<close> exactly when the configured
  \<open>DEFAULT_EXECUTE_SHELL_CMD\<close> is the string \<open>true\<close>, and \<open>a\<close> otherwise; every prompt of the
  loop is shown with that default. So when the user answers the first prompt with an empty
  line, the command is executed if the value is \<open>true\<close>, and the loop aborts otherwise.
\<close>

theorem default_choice:
  "prompt_default ev = (if DEFAULT_EXECUTE_SHELL_CMD ev = ''true'' then ''e'' else ''a'')
   \<and> (shell_loop ev a fc w = (res, evs, w')
      \<longrightarrow> (\<exists>rest. evs = ShellPrompt (prompt_default ev) # rest)
          \<and> (\<forall>d. ShellPrompt d \<in> set evs \<longrightarrow> d = prompt_default ev))
   \<and> (console w = [] # rest
      \<longrightarrow> shell_loop ev a fc w =
            (if DEFAULT_EXECUTE_SHELL_CMD ev = ''true''
             then (Inr (), [ShellPrompt ''e'', Chose ''e'', RunCommand fc (run_command ev fc)],
                   w\<lparr>console := rest\<rparr>)
             else (Inr (), [ShellPrompt ''a'', Chose ''a''], w\<lparr>console := rest\<rparr>)))"
proof (intro conjI impI)
  show "prompt_default ev = (if DEFAULT_EXECUTE_SHELL_CMD ev = ''true'' then ''e'' else ''a'')"
    by (simp add: prompt_default_def)
next
  assume h: "shell_loop ev a fc w = (res, evs, w')"
  from shell_loop_first_event[OF h] show "\<exists>rest. evs = ShellPrompt (prompt_default ev) # rest" .
  from shell_loop_run[OF h] show "\<forall>d. ShellPrompt d \<in> set evs \<longrightarrow> d = prompt_default ev"
    by blast
next
  assume h: "console w = [] # rest"
  show "shell_loop ev a fc w =
            (if DEFAULT_EXECUTE_SHELL_CMD ev = ''true''
             then (Inr (), [ShellPrompt ''e'', Chose ''e'', RunCommand fc (run_command ev fc)],
                   w\<lparr>console := rest\<rparr>)
             else (Inr (), [ShellPrompt ''a'', Chose ''a''], w\<lparr>console := rest\<rparr>))"
  proof (cases "DEFAULT_EXECUTE_SHELL_CMD ev = ''true''")
    case True
    with h have "typer_prompt (prompt_default ev) w = (Inr ''e'', w\<lparr>console := rest\<rparr>)"
      by (simp add: typer_prompt_def prompt_default_def Choice_convert_def)
    from shell_loop_execute[OF this, of a fc] True show ?thesis
      by (simp add: prompt_default_def)
  next
    case False
    with h have "typer_prompt (prompt_default ev) w = (Inr ''a'', w\<lparr>console := rest\<rparr>)"
      by (simp add: typer_prompt_def prompt_default_def Choice_convert_def)
    from shell_loop_abort[OF this, of a fc] False show ?thesis
      by (simp add: prompt_default_def)
  qed
qed

theorem default_choice_witness:
  "console (world0\<lparr>console := [[], ''d'']\<rparr>) = [] # [''d'']
   \<and> shell_loop env0 args_shell ''ls'' (world0\<lparr>console := [[], ''d'']\<rparr>)
        = (Inr (), [ShellPrompt ''a'', Chose ''a''], world0\<lparr>console := [''d'']\<rparr>)
   \<and> shell_loop (env0\<lparr>DEFAULT_EXECUTE_SHELL_CMD := ''true''\<rparr>) args_shell ''ls''
          (world0\<lparr>console := [[], ''d'']\<rparr>)
        = (Inr (), [ShellPrompt ''e'', Chose ''e'', RunCommand ''ls'' 1], world0\<lparr>console := [''d'']\<rparr>)"
proof -
  have c: "console (world0\<lparr>console := [[], ''d'']\<rparr>) = [] # [''d'']"
    by (simp add: world0_def)
  note a = default_choice[where ev = env0 and a = args_shell and fc = "''ls''"
      and w = "world0\<lparr>console := [[], ''d'']\<rparr>" and rest = "[''d'']"]
  note b = default_choice[where ev = "env0\<lparr>DEFAULT_EXECUTE_SHELL_CMD := ''true''\<rparr>"
      and a = args_shell and fc = "''ls''"
      and w = "world0\<lparr>console := [[], ''d'']\<rparr>" and rest = "[''d'']"]
  from a c have 1: "shell_loop env0 args_shell ''ls'' (world0\<lparr>console := [[], ''d'']\<rparr>)
        = (Inr (), [ShellPrompt ''a'', Chose ''a''], world0\<lparr>console := [''d'']\<rparr>)"
    by (simp add: env0_def world0_def)
  from b c have 2: "shell_loop (env0\<lparr>DEFAULT_EXECUTE_SHELL_CMD := ''true''\<rparr>) args_shell ''ls''
          (world0\<lparr>console := [[], ''d'']\<rparr>)
        = (Inr (), [ShellPrompt ''e'', Chose ''e'', RunCommand ''ls'' 1], world0\<lparr>console := [''d'']\<rparr>)"
    by (simp add: env0_def world0_def)
  from c 1 2 show ?thesis by blast
qed

text \<open>
  Claim C9. Whenever both a chat id and a REPL id are given (each a non-empty string, which
  is what \<open>if chat and repl\<close> tests), \<open>main\<close> raises a click usage error before anything
  else happens: no event at all, and the world as it was. The error is the \<open>BadArgumentUsage\<close>
  of line 157, or that of line 152 when the flags conflict as well.
\<close>

theorem chat_and_repl_fail:
  assumes "truthy (chat a)" and "truthy (repl a)"
  shows "\<exists>e. main ev a w = (Inl e, [], w)
           \<and> is_usage_error e
           \<and> e = BadArgumentUsage
                   (if (shell a \<and> describe_shell a) \<or> (shell a \<and> code a)
                       \<or> (describe_shell a \<and> code a)
                    then only_one_msg else chat_repl_msg)"
proof -
  have p: "piped_prompt ev a = (prompt a, [])"
    using assms by (simp add: piped_prompt_def)
  have "check_options ev a (fst (piped_prompt ev a)) = Some (BadArgumentUsage
                   (if (shell a \<and> describe_shell a) \<or> (shell a \<and> code a)
                       \<or> (describe_shell a \<and> code a)
                    then only_one_msg else chat_repl_msg))"
    using assms p by (auto simp: check_options_def count_true_def)
  from main_check_fails[OF this] p show ?thesis by simp
qed

theorem chat_and_repl_fail_witness:
  "truthy (chat (args0\<lparr>chat := Some ''c'', repl := Some ''r''\<rparr>))
   \<and> truthy (repl (args0\<lparr>chat := Some ''c'', repl := Some ''r''\<rparr>))
   \<and> main env0 (args0\<lparr>chat := Some ''c'', repl := Some ''r''\<rparr>) world0
       = (Inl (BadArgumentUsage chat_repl_msg), [], world0)"
  using chat_and_repl_fail[where a = "args0\<lparr>chat := Some ''c'', repl := Some ''r''\<rparr>"
          and ev = env0 and w = world0]
  by (auto simp: args0_def truthy_def)

text \<open>
  Claim C10. With no prompt argument (\<open>None\<close> or the empty string), standard input a
  terminal, no \<open>--editor\<close> and no REPL id, \<open>main\<close> raises \<open>MissingParameter\<close> before any event,
  so before any role resolution or remote call. When standard input is piped and no REPL is
  asked for, \<open>main\<close> first reads standard input, and the prompt becomes that text, a blank
  line, and the prompt argument (or nothing). It is never empty, so the check of line 148
  passes: lines 143 to 231 go on to the later checks, the role and the handlers with the
  joined text as the prompt, every completion that \<open>main\<close> asks for carries it, and
  \<open>MissingParameter\<close> can come out of \<open>main\<close> only if the tokenizer raises it on that text.
\<close>

theorem missing_prompt_fails:
  "(\<not> truthy (prompt a) \<and> stdin_isatty ev \<and> \<not> editor a \<and> \<not> truthy (repl a)
      \<longrightarrow> main ev a w = (Inl MissingParameter, [], w))
   \<and> (\<not> stdin_isatty ev \<and> \<not> truthy (repl a)
      \<longrightarrow> piped_prompt ev a =
            (Some (stdin_read ev @ ''\<newline>\<newline>'' @ (case prompt a of None \<Rightarrow> [] | Some p \<Rightarrow> p)),
             [StdinRead])
          \<and> truthy (fst (piped_prompt ev a))
          \<and> check_options ev a (fst (piped_prompt ev a)) \<noteq> Some MissingParameter
          \<and> generate ev a w =
              (if 1 < count_true [shell a, describe_shell a, code a]
               then (Inl (BadArgumentUsage only_one_msg), [StdinRead], w)
               else if editor a then (Inl (BadArgumentUsage editor_stdin_msg), [StdinRead], w)
               else case image_url_of ev a of
                      (Inl e, ev1) \<Rightarrow> (Inl e, StdinRead # ev1, w)
                    | (Inr image_url, ev1) \<Rightarrow>
                        (case resolve_role ev a of
                           (Inl e, ev3) \<Rightarrow> (Inl e, StdinRead # ev1 @ ev3, w)
                         | (Inr role_class, ev3) \<Rightarrow>
                             (case run_handlers ev a
                                     (Some (stdin_read ev @ ''\<newline>\<newline>''
                                              @ (case prompt a of None \<Rightarrow> [] | Some p \<Rightarrow> p)))
                                     image_url role_class w of
                                (res, ev4, w1) \<Rightarrow> (res, StdinRead # ev1 @ ev3 @ ev4, w1))))
          \<and> (\<forall>res evs w'. main ev a w = (res, evs, w') \<longrightarrow>
                (\<exists>rest. evs = StdinRead # rest)
                \<and> (\<forall>r p c. HandleCall r p c \<in> set evs \<longrightarrow>
                      p = Some (stdin_read ev @ ''\<newline>\<newline>''
                                  @ (case prompt a of None \<Rightarrow> [] | Some p \<Rightarrow> p)))
                \<and> (res = Inl MissingParameter \<longrightarrow>
                      tokenize a
                      \<and> count_tokens ev (model a)
                            (Some (stdin_read ev @ ''\<newline>\<newline>''
                                     @ (case prompt a of None \<Rightarrow> [] | Some p \<Rightarrow> p)))
                          = Inl MissingParameter)))"
proof -
  have first: "\<not> truthy (prompt a) \<and> stdin_isatty ev \<and> \<not> editor a \<and> \<not> truthy (repl a)
      \<longrightarrow> main ev a w = (Inl MissingParameter, [], w)"
  proof
    assume h: "\<not> truthy (prompt a) \<and> stdin_isatty ev \<and> \<not> editor a \<and> \<not> truthy (repl a)"
    then have p: "piped_prompt ev a = (prompt a, [])"
      by (simp add: piped_prompt_def stdin_passed_def)
    with h have "check_options ev a (fst (piped_prompt ev a)) = Some MissingParameter"
      by (simp add: check_options_def)
    from main_check_fails[OF this] p show "main ev a w = (Inl MissingParameter, [], w)"
      by simp
  qed
  have joined: "piped_prompt ev a =
            (Some (stdin_read ev @ ''\<newline>\<newline>'' @ (case prompt a of None \<Rightarrow> [] | Some p \<Rightarrow> p)),
             [StdinRead])"
    if "\<not> stdin_isatty ev \<and> \<not> truthy (repl a)"
    using that by (simp add: piped_prompt_def stdin_passed_def)
  have counts: "truthy (fst (piped_prompt ev a))"
    if "\<not> stdin_isatty ev \<and> \<not> truthy (repl a)"
    using joined[OF that] by (simp add: truthy_def)
  have passes: "check_options ev a (fst (piped_prompt ev a)) \<noteq> Some MissingParameter"
    if "\<not> stdin_isatty ev \<and> \<not> truthy (repl a)"
    using counts[OF that] by (simp add: check_options_def)
  have goes_on: "generate ev a w =
              (if 1 < count_true [shell a, describe_shell a, code a]
               then (Inl (BadArgumentUsage only_one_msg), [StdinRead], w)
               else if editor a then (Inl (BadArgumentUsage editor_stdin_msg), [StdinRead], w)
               else case image_url_of ev a of
                      (Inl e, ev1) \<Rightarrow> (Inl e, StdinRead # ev1, w)
                    | (Inr image_url, ev1) \<Rightarrow>
                        (case resolve_role ev a of
                           (Inl e, ev3) \<Rightarrow> (Inl e, StdinRead # ev1 @ ev3, w)
                         | (Inr role_class, ev3) \<Rightarrow>
                             (case run_handlers ev a
                                     (Some (stdin_read ev @ ''\<newline>\<newline>''
                                              @ (case prompt a of None \<Rightarrow> [] | Some p \<Rightarrow> p)))
                                     image_url role_class w of
                                (res, ev4, w1) \<Rightarrow> (res, StdinRead # ev1 @ ev3 @ ev4, w1))))"
    if "\<not> stdin_isatty ev \<and> \<not> truthy (repl a)"
    using that generate_piped[of ev a w] by blast
  have on_main: "(\<forall>res evs w'. main ev a w = (res, evs, w') \<longrightarrow>
                (\<exists>rest. evs = StdinRead # rest)
                \<and> (\<forall>r p c. HandleCall r p c \<in> set evs \<longrightarrow>
                      p = Some (stdin_read ev @ ''\<newline>\<newline>''
                                  @ (case prompt a of None \<Rightarrow> [] | Some p \<Rightarrow> p)))
                \<and> (res = Inl MissingParameter \<longrightarrow>
                      tokenize a
                      \<and> count_tokens ev (model a)
                            (Some (stdin_read ev @ ''\<newline>\<newline>''
                                     @ (case prompt a of None \<Rightarrow> [] | Some p \<Rightarrow> p)))
                          = Inl MissingParameter))"
    if "\<not> stdin_isatty ev \<and> \<not> truthy (repl a)"
    using that main_piped[of ev a w] by blast
  from first joined counts passes goes_on on_main show ?thesis
    by blast
qed

theorem missing_prompt_fails_witness:
  "(\<not> truthy (prompt args_piped) \<and> stdin_isatty env0
      \<and> \<not> editor args_piped \<and> \<not> truthy (repl args_piped))
   \<and> main env0 args_piped world_piped = (Inl MissingParameter, [], world_piped)
   \<and> (\<not> stdin_isatty env_piped \<and> \<not> truthy (repl args_piped))
   \<and> piped_prompt env_piped args_piped = (Some ''ls -l\<newline>\<newline>'', [StdinRead])
   \<and> main env_piped args_piped world_piped =
       (Inr (),
        [StdinRead, CheckGet False False False,
         HandleCall (DefaultRoles env_piped DefaultPlain) (Some ''ls -l\<newline>\<newline>'') None,
         RemoteCall [\<lparr>speaker = System, content = Some ''text'', image_ref = None\<rparr>,
                     \<lparr>speaker = User, content = Some ''ls -l\<newline>\<newline>'', image_ref = None\<rparr>]],
        world0)
   \<and> (\<exists>rest. fst (snd (main env_piped args_piped world_piped)) = StdinRead # rest)
   \<and> fst (main env_piped args_piped world_piped) \<noteq> Inl MissingParameter"
proof -
  have h1: "\<not> truthy (prompt args_piped) \<and> stdin_isatty env0
      \<and> \<not> editor args_piped \<and> \<not> truthy (repl args_piped)"
    by (simp add: sample_defs truthy_def)
  have h2: "\<not> stdin_isatty env_piped \<and> \<not> truthy (repl args_piped)"
    by (simp add: sample_defs truthy_def)
  have nt: "\<not> tokenize args_piped"
    by (simp add: sample_defs)
  have m: "main env_piped args_piped world_piped =
       (Inr (),
        [StdinRead, CheckGet False False False,
         HandleCall (DefaultRoles env_piped DefaultPlain) (Some ''ls -l\<newline>\<newline>'') None,
         RemoteCall [\<lparr>speaker = System, content = Some ''text'', image_ref = None\<rparr>,
                     \<lparr>speaker = User, content = Some ''ls -l\<newline>\<newline>'', image_ref = None\<rparr>]],
        world0)"
    by (simp add: run_defs sample_defs)
  note a = missing_prompt_fails[where a = args_piped and ev = env0 and w = world_piped]
  note b = missing_prompt_fails[where a = args_piped and ev = env_piped and w = world_piped]
  from a h1 have 1: "main env0 args_piped world_piped = (Inl MissingParameter, [], world_piped)"
    by blast
  from b h2 have 2: "piped_prompt env_piped args_piped =
      (Some (stdin_read env_piped @ ''\<newline>\<newline>''
               @ (case prompt args_piped of None \<Rightarrow> [] | Some p \<Rightarrow> p)), [StdinRead])"
    by blast
  then have 3: "piped_prompt env_piped args_piped = (Some ''ls -l\<newline>\<newline>'', [StdinRead])"
    by (simp add: sample_defs)
  from b h2 main_collapse[of env_piped args_piped world_piped]
  have 4: "(\<exists>rest. fst (snd (main env_piped args_piped world_piped)) = StdinRead # rest)
      \<and> (fst (main env_piped args_piped world_piped) = Inl MissingParameter
             \<longrightarrow> tokenize args_piped)"
    by blast
  from h1 h2 1 3 m 4 nt show ?thesis by blast
qed

end
